theory Spec2Isabelle
  imports Main "HOL-Library.Word"
begin

unbundle bit_operations_syntax

section \<open>Data model of ddsi\_acknack.c\<close>

text \<open>
  Sequence numbers are \<open>seqno_t\<close>, a signed 64-bit integer: a \<open>64 word\<close> compared with
  the signed orders \<open>\<le>s\<close> and \<open><s\<close>.  Counts, bit counts and fragment numbers are
  \<open>uint32_t\<close>: a \<open>32 word\<close> with the unsigned order and wrap-around addition.
  The monotonic clock and the configured durations are the \<open>v\<close> fields of
  \<open>ddsrt_mtime_t\<close> and \<open>dds_duration_t\<close>, read as integers.  Pointers to the
  collaborators (reorder buffer, defragmenter, delivery queue, participant) are opaque
  handles.  \<open>assert\<close> is a no-op of the release build: the asserted conditions are
  separate predicates below.
\<close>

type_synonym seqno_t = "64 word"
type_synonym nn_count_t = "32 word"
type_synonym mtime = int
type_synonym duration = int
type_synonym handle = nat

definition UINT32_MAX :: "32 word" where
  "UINT32_MAX = 0xFFFFFFFF"

definition NN_SEQUENCE_NUMBER_SET_MAX_BITS :: "32 word" where
  "NN_SEQUENCE_NUMBER_SET_MAX_BITS = 256"

definition NN_FRAGMENT_NUMBER_SET_MAX_BITS :: "32 word" where
  "NN_FRAGMENT_NUMBER_SET_MAX_BITS = 256"

datatype pwr_rd_match_syncstate = PRMSS_SYNC | PRMSS_TLCATCHUP | PRMSS_OUT_OF_SYNC

datatype add_AckNack_result =
  AANR_SUPPRESSED_ACK | AANR_ACK | AANR_SUPPRESSED_NACK | AANR_NACK | AANR_NACKFRAG_ONLY

datatype nn_defrag_nackmap_result =
  DEFRAG_NACKMAP_UNKNOWN_SAMPLE
| DEFRAG_NACKMAP_ALL_ADVERTISED_FRAGMENTS_KNOWN
| DEFRAG_NACKMAP_FRAGMENTS_MISSING

record ddsi_guid =
  prefix :: nat
  entityid :: "32 word"

record last_nack_summary =
  seq_base :: seqno_t
  seq_end_p1 :: seqno_t
  frag_base :: "32 word"
  frag_end_p1 :: "32 word"

text \<open>
  The set headers.  On the wire the base of a sequence number set is an
  \<open>nn_sequence_number_t\<close>; \<open>fromSN\<close> and \<open>toSN\<close> convert between it and \<open>seqno_t\<close>
  and are inverse to each other, so the model keeps the \<open>seqno_t\<close>.
\<close>

record nn_sequence_number_set_header =
  sn_bitmap_base :: seqno_t
  sn_numbits :: "32 word"

record nn_fragment_number_set_header =
  fn_bitmap_base :: "32 word"
  fn_numbits :: "32 word"

text \<open>\<open>struct add_AckNack_info\<close>, with \<open>ACK_REASON_IN_FLAGS\<close> 0 (no \<open>flags\<close> field).\<close>

record add_AckNack_info =
  info_nack_sent_on_nackdelay :: bool
  acknack_set :: nn_sequence_number_set_header
  acknack_bits :: "32 word list"
  nackfrag_seq :: seqno_t
  nackfrag_set :: nn_fragment_number_set_header
  nackfrag_bits :: "32 word list"

text \<open>The fields of \<open>gv->config\<close> this file reads.\<close>

record config =
  late_ack_mode :: bool
  ack_delay :: duration
  nack_delay :: duration
  auto_resched_nack_delay :: duration
  meas_hb_to_ack_latency :: bool

text \<open>The fields of \<open>struct proxy_writer\<close> this file reads or writes.\<close>

record proxy_writer =
  guid :: ddsi_guid
  gv_config :: config
  proxypp :: handle
  last_seq :: seqno_t
  last_fragnum :: "32 word"
  next_deliv_seq_lowword :: "32 word"
  reorder :: handle
  defrag :: handle
  dqueue :: handle
  nackfragcount :: nn_count_t

text \<open>The fields of \<open>struct pwr_rd_match\<close> this file reads or writes.\<close>

record pwr_rd_match =
  rd_guid :: ddsi_guid
  in_sync :: pwr_rd_match_syncstate
  filtered :: bool
  rwn_last_seq :: seqno_t
  not_in_sync_reorder :: handle
  count :: nn_count_t
  last_nack :: last_nack_summary
  nack_sent_on_nackdelay :: bool
  heartbeat_since_ack :: bool
  heartbeatfrag_since_ack :: bool
  ack_requested :: bool
  directed_heartbeat :: bool
  t_last_ack :: mtime
  t_last_nack :: mtime
  hb_timestamp :: int

subsection \<open>Messages\<close>

text \<open>
  The two submessages this file writes, with the fields it sets.  \<open>an_final\<close> is the
  \<open>ACKNACK_FLAG_FINAL\<close> bit of the submessage header.  The bits are the words copied
  by \<open>memcpy\<close>; the count is the trailing field at the variable offset.
\<close>

record AckNack_t =
  an_final :: bool
  an_readerId :: "32 word"
  an_writerId :: "32 word"
  an_readerSNState :: nn_sequence_number_set_header
  an_bits :: "32 word list"
  an_count :: nn_count_t

record NackFrag_t =
  nf_readerId :: "32 word"
  nf_writerId :: "32 word"
  nf_writerSN :: seqno_t
  nf_fragmentNumberState :: nn_fragment_number_set_header
  nf_bits :: "32 word list"
  nf_count :: nn_count_t

text \<open>
  Modelled from the spec: the message builder (\<open>q_xmsg\<close>) is not under src/.  A message
  is the list of its submessages in the order they were appended: the INFO\_TS of
  \<open>add_timestamp\<close>, the two submessages above, and whatever bytes the security layer
  puts in the place of a submessage.
\<close>

datatype submsg =
  SM_INFO_TS int
| SM_ACKNACK AckNack_t
| SM_NACKFRAG NackFrag_t
| SM_ENCODED "8 word list"

record nn_xmsg =
  xmsg_rd_guid :: ddsi_guid
  xmsg_pp :: "handle option"
  xmsg_dst_pwr :: "ddsi_guid option"
  xmsg_submsgs :: "submsg list"

text \<open>
  Modelled from the spec: the bitmap of a set of \<open>numbits\<close> bits takes
  \<open>(numbits + 31) / 32\<close> 32-bit words (the macros
  \<open>NN_SEQUENCE_NUMBER_SET_BITS_SIZE\<close> and \<open>NN_FRAGMENT_NUMBER_SET_BITS_SIZE\<close>, in
  bytes, are not under src/).
\<close>

definition set_bits_words :: "32 word \<Rightarrow> nat" where
  "set_bits_words numbits = (unat numbits + 31) div 32"

text \<open>
  Modelled from the spec: the wire layout of section 6 gives the size in bytes of each
  submessage (4 bytes of submessage header, 4 per entity id, 8 per sequence number, 4
  per 32-bit field), and \<open>msg.size()\<close> is the size of what has been appended.
\<close>

fun submsg_size :: "submsg \<Rightarrow> nat" where
  "submsg_size (SM_INFO_TS t) = 12"
| "submsg_size (SM_ACKNACK an) = 28 + 4 * length (an_bits an)"
| "submsg_size (SM_NACKFRAG nf) = 32 + 4 * length (nf_bits nf)"
| "submsg_size (SM_ENCODED bs) = length bs"

definition nn_xmsg_size :: "nn_xmsg \<Rightarrow> nat" where
  "nn_xmsg_size msg = sum_list (map submsg_size (xmsg_submsgs msg))"

definition nn_xmsg_setdstPWR :: "nn_xmsg \<Rightarrow> proxy_writer \<Rightarrow> nn_xmsg" where
  "nn_xmsg_setdstPWR msg pw = msg\<lparr>xmsg_dst_pwr := Some (guid pw)\<rparr>"

definition nn_xmsg_add_timestamp :: "nn_xmsg \<Rightarrow> int \<Rightarrow> nn_xmsg" where
  "nn_xmsg_add_timestamp msg t = msg\<lparr>xmsg_submsgs := xmsg_submsgs msg @ [SM_INFO_TS t]\<rparr>"

subsection \<open>The collaborators\<close>

text \<open>
  The reorder buffer, the defragmenter, the delivery queue, the entity index, the
  message pool and the security layer are outside this file: their operations are the
  fields of \<open>externs\<close>.
  \<^item> \<open>nn_reorder_nackmap reorder base maxseq maxsz notail\<close> gives the set header and the
    bits it writes through its two output pointers; its return value is the \<open>numbits\<close>
    of that header (spec 4.3: \<open>numbits = reorder.nackmap(...)\<close>).
  \<^item> \<open>nn_defrag_nackmap defrag seq maxfragnum maxsz\<close> gives the verdict and what the
    call writes through its two output pointers: \<open>Some\<close> of the set header and the
    bits, or \<open>None\<close> when it leaves the two buffers as they are.
  \<^item> \<open>nn_xmsg_new_ok\<close> says whether the allocation of the message succeeds.
  \<^item> \<open>encode_datareader_submsg msg marker pwr_guid rd_guid\<close> gives the message after
    the security hook has seen the submessage at index \<open>marker\<close>.
\<close>

record externs =
  nn_reorder_next_seq :: "handle \<Rightarrow> seqno_t"
  nn_reorder_nackmap :: "handle \<Rightarrow> seqno_t \<Rightarrow> seqno_t \<Rightarrow> 32 word \<Rightarrow> bool
    \<Rightarrow> nn_sequence_number_set_header \<times> 32 word list"
  nn_defrag_nackmap :: "handle \<Rightarrow> seqno_t \<Rightarrow> 32 word \<Rightarrow> 32 word
    \<Rightarrow> nn_defrag_nackmap_result \<times> (nn_fragment_number_set_header \<times> 32 word list) option"
  nn_dqueue_is_full :: "handle \<Rightarrow> bool"
  q_omg_proxy_participant_is_secure :: "handle \<Rightarrow> bool"
  entidx_lookup_reader_guid :: "ddsi_guid \<Rightarrow> handle option"
  nn_xmsg_new_ok :: bool
  encode_datareader_submsg :: "nn_xmsg \<Rightarrow> nat \<Rightarrow> ddsi_guid \<Rightarrow> ddsi_guid \<Rightarrow> nn_xmsg"

text \<open>
  Modelled from the spec: \<open>nn_bitset_isset\<close> (q\_bitset.h) is not under src/.  Bit
  \<open>idx\<close> of a packed array is set when \<open>idx\<close> is below \<open>numbits\<close> and the bit is 1,
  bits counted from the most significant end of each 32-bit word.  A read past the
  end of the array (undefined in C, and excluded by \<open>numbits \<le> 256\<close> on arrays of 8
  words) gives false.
\<close>

definition nn_bitset_isset :: "32 word \<Rightarrow> 32 word list \<Rightarrow> 32 word \<Rightarrow> bool" where
  "nn_bitset_isset numbits bits idx =
     (idx < numbits \<and> unat idx div 32 < length bits \<and>
      bit (bits ! (unat idx div 32)) (31 - unat idx mod 32))"

text \<open>
  Modelled from the spec: \<open>ddsrt_mtime_add_duration\<close> is not under src/; the spec
  writes it \<open>t_last_ack + ack_delay\<close>.
\<close>

definition ddsrt_mtime_add_duration :: "mtime \<Rightarrow> duration \<Rightarrow> mtime" where
  "ddsrt_mtime_add_duration abstime reltime = abstime + reltime"

text \<open>
  Modelled from the spec: \<open>resched_xevent_if_earlier\<close> is not under src/; the event
  is its scheduled time, and the operation is "rearm if earlier".
\<close>

definition resched_xevent_if_earlier :: "mtime \<Rightarrow> mtime \<Rightarrow> mtime" where
  "resched_xevent_if_earlier ev tsched = (if tsched < ev then tsched else ev)"

text \<open>
  Modelled from the spec: \<open>nn_xmsg_new\<close> and \<open>nn_xmsg_free\<close> are not under src/.  A
  new message has no submessage and no destination yet; the pool is the number of
  messages allocated from it and not freed.
\<close>

definition nn_xmsg_new :: "externs \<Rightarrow> ddsi_guid \<Rightarrow> handle option \<Rightarrow> nn_xmsg option" where
  "nn_xmsg_new ext rdguid pp =
     (if nn_xmsg_new_ok ext
      then Some \<lparr>xmsg_rd_guid = rdguid, xmsg_pp = pp, xmsg_dst_pwr = None, xmsg_submsgs = []\<rparr>
      else None)"

text \<open>
  What the two entry points work on: the event \<open>ev\<close>, the proxy writer \<open>pwr\<close>, the
  match \<open>rwn\<close>, and the number of live messages of \<open>gv->xmsgpool\<close>.
\<close>

record state =
  ev :: mtime
  pwr :: proxy_writer
  rwn :: pwr_rd_match
  xmsgpool_live :: nat

section \<open>The functions of ddsi\_acknack.c\<close>

definition next_deliv_seq :: "proxy_writer \<Rightarrow> seqno_t \<Rightarrow> seqno_t" where
  "next_deliv_seq pw next_seq =
     (let lw = next_deliv_seq_lowword pw;
          nd = (next_seq AND NOT (ucast UINT32_MAX)) OR ucast lw
      in if next_seq <s nd then nd - push_bit 32 1 else nd)"

text \<open>The condition of the \<open>assert\<close> at the end of \<open>next_deliv_seq\<close>.\<close>

definition next_deliv_seq_assert :: "seqno_t \<Rightarrow> seqno_t \<Rightarrow> bool" where
  "next_deliv_seq_assert nd next_seq = (0 <s nd \<and> nd \<le>s next_seq)"

definition add_AckNack_getsource ::
  "externs \<Rightarrow> proxy_writer \<Rightarrow> pwr_rd_match \<Rightarrow> handle \<times> seqno_t \<times> bool" where
  "add_AckNack_getsource ext pw rm =
     (if in_sync rm = PRMSS_OUT_OF_SYNC \<or> filtered rm then
        (let r = not_in_sync_reorder rm in (r, nn_reorder_next_seq ext r, False))
      else
        (let r = reorder pw in
         if \<not> late_ack_mode (gv_config pw) then (r, nn_reorder_next_seq ext r, False)
         else (r, next_deliv_seq pw (nn_reorder_next_seq ext r),
               nn_dqueue_is_full ext (dqueue pw))))"

text \<open>The loop index does not wrap while it is below the bound.\<close>

lemma loop_index_succ: "(i :: 32 word) < numbits \<Longrightarrow> unat (i + 1) = Suc (unat i)"
proof -
  assume "i < numbits"
  then have "unat i < unat numbits" by (simp add: word_less_nat_alt)
  moreover have "unat numbits < 2 ^ 32" using unsigned_less [of numbits] by simp
  ultimately have "unat i + unat (1 :: 32 word) < 2 ^ LENGTH(32)" by simp
  then have "unat (i + 1) = unat i + unat (1 :: 32 word)" by (simp only: unat_add_lem)
  then show ?thesis by simp
qed

text \<open>
  The \<open>for\<close> loop of \<open>add_AckNack_makebitmaps\<close>, from index \<open>i\<close> on: \<open>numbits\<close> is the
  value \<open>nn_reorder_nackmap\<close> returned and \<open>base\<close> the base of the sequence number set.
  It returns the function's result and the \<open>info\<close> it leaves.
\<close>

function makebitmaps_loop ::
  "externs \<Rightarrow> proxy_writer \<Rightarrow> 32 word \<Rightarrow> seqno_t \<Rightarrow> 32 word \<Rightarrow> add_AckNack_info
     \<Rightarrow> bool \<times> add_AckNack_info" where
  "makebitmaps_loop ext pw numbits base i info =
     (if i < numbits then
        (if \<not> nn_bitset_isset numbits (acknack_bits info) i then
           makebitmaps_loop ext pw numbits base (i + 1) info
         else
           (let seq = base + ucast i;
                fragnum = (if seq = last_seq pw then last_fragnum pw else UINT32_MAX);
                res = nn_defrag_nackmap ext (defrag pw) seq fragnum
                        NN_FRAGMENT_NUMBER_SET_MAX_BITS;
                info1 = (case snd res of
                           None \<Rightarrow> info
                         | Some w \<Rightarrow> info\<lparr>nackfrag_set := fst w, nackfrag_bits := snd w\<rparr>)
            in case fst res of
                 DEFRAG_NACKMAP_UNKNOWN_SAMPLE \<Rightarrow>
                   makebitmaps_loop ext pw numbits base (i + 1) info1
               | DEFRAG_NACKMAP_ALL_ADVERTISED_FRAGMENTS_KNOWN \<Rightarrow>
                   (0 < i, info1\<lparr>nackfrag_seq := 0,
                                 acknack_set := (acknack_set info1)\<lparr>sn_numbits := i\<rparr>\<rparr>)
               | DEFRAG_NACKMAP_FRAGMENTS_MISSING \<Rightarrow>
                   (True, info1\<lparr>nackfrag_seq := seq,
                                acknack_set := (acknack_set info1)\<lparr>sn_numbits := i\<rparr>\<rparr>)))
      else (True, info))"
  by pat_completeness auto
termination
proof (relation "measure (\<lambda>(ext, pw, numbits, base, i, info). unat numbits - unat i)")
  show "wf (measure (\<lambda>(ext, pw, numbits, base, i, info). unat numbits - unat i))"
    by simp
next
  fix ext :: externs and pw :: proxy_writer and numbits i :: "32 word"
    and base :: seqno_t and info :: add_AckNack_info
  assume "i < numbits"
  then have "unat (i + 1) = Suc (unat i)" and "unat i < unat numbits"
    by (simp_all add: loop_index_succ word_less_nat_alt)
  then show "((ext, pw, numbits, base, i + 1, info), (ext, pw, numbits, base, i, info))
      \<in> measure (\<lambda>(ext, pw, numbits, base, i, info). unat numbits - unat i)"
    by simp
next
  fix ext :: externs and pw :: proxy_writer and numbits i :: "32 word"
    and base :: seqno_t and info info1 :: add_AckNack_info
  assume "i < numbits"
  then have "unat (i + 1) = Suc (unat i)" and "unat i < unat numbits"
    by (simp_all add: loop_index_succ word_less_nat_alt)
  then show "((ext, pw, numbits, base, i + 1, info1), (ext, pw, numbits, base, i, info))
      \<in> measure (\<lambda>(ext, pw, numbits, base, i, info). unat numbits - unat i)"
    by simp
qed

text \<open>The loop is unfolded by hand in the proofs below.\<close>

declare makebitmaps_loop.simps [simp del]

definition add_AckNack_makebitmaps ::
  "externs \<Rightarrow> proxy_writer \<Rightarrow> pwr_rd_match \<Rightarrow> add_AckNack_info
     \<Rightarrow> bool \<times> add_AckNack_info" where
  "add_AckNack_makebitmaps ext pw rm info =
     (let src = add_AckNack_getsource ext pw rm;
          r = fst src; bitmap_base = fst (snd src); notail = snd (snd src);
          lseq = (if filtered rm then rwn_last_seq rm else last_seq pw);
          m = nn_reorder_nackmap ext r bitmap_base lseq NN_SEQUENCE_NUMBER_SET_MAX_BITS notail;
          info1 = info\<lparr>acknack_set := fst m, acknack_bits := snd m\<rparr>;
          numbits = sn_numbits (fst m)
      in if numbits = 0 then (False, info1\<lparr>nackfrag_seq := 0\<rparr>)
         else makebitmaps_loop ext pw numbits (sn_bitmap_base (acknack_set info1)) 0
                (info1\<lparr>nackfrag_seq := 0\<rparr>))"


definition add_NackFrag ::
  "externs \<Rightarrow> nn_xmsg \<Rightarrow> proxy_writer \<Rightarrow> pwr_rd_match \<Rightarrow> add_AckNack_info \<Rightarrow> nn_xmsg" where
  "add_NackFrag ext msg pw rm info =
     (let sm_marker = length (xmsg_submsgs msg);
          nf = \<lparr>nf_readerId = entityid (rd_guid rm),
                nf_writerId = entityid (guid pw),
                nf_writerSN = nackfrag_seq info,
                nf_fragmentNumberState =
                  \<lparr>fn_bitmap_base = fn_bitmap_base (nackfrag_set info) + 1,
                   fn_numbits = fn_numbits (nackfrag_set info)\<rparr>,
                nf_bits = take (set_bits_words (fn_numbits (nackfrag_set info)))
                            (nackfrag_bits info),
                nf_count = nackfragcount pw\<rparr>
      in encode_datareader_submsg ext
           (msg\<lparr>xmsg_submsgs := xmsg_submsgs msg @ [SM_NACKFRAG nf]\<rparr>)
           sm_marker (guid pw) (rd_guid rm))"

definition add_AckNack ::
  "externs \<Rightarrow> nn_xmsg \<Rightarrow> proxy_writer \<Rightarrow> pwr_rd_match \<Rightarrow> add_AckNack_info \<Rightarrow> nn_xmsg" where
  "add_AckNack ext msg pw rm info =
     (let sm_marker = length (xmsg_submsgs msg);
          an = \<lparr>an_final = True,
                an_readerId = entityid (rd_guid rm),
                an_writerId = entityid (guid pw),
                an_readerSNState = acknack_set info,
                an_bits = take (set_bits_words (sn_numbits (acknack_set info)))
                            (acknack_bits info),
                an_count = count rm\<rparr>
      in encode_datareader_submsg ext
           (msg\<lparr>xmsg_submsgs := xmsg_submsgs msg @ [SM_ACKNACK an]\<rparr>)
           sm_marker (guid pw) (rd_guid rm))"

text \<open>
  \<open>get_AckNack_info\<close> returns its result, the \<open>nack_summary\<close> it fills in and the
  \<open>info\<close> it leaves.  \<open>r1\<close> is the state after the first \<open>if\<close>/\<open>else\<close>.
\<close>

definition get_AckNack_info ::
  "externs \<Rightarrow> proxy_writer \<Rightarrow> pwr_rd_match \<Rightarrow> add_AckNack_info \<Rightarrow> bool \<Rightarrow> bool
     \<Rightarrow> add_AckNack_result \<times> last_nack_summary \<times> add_AckNack_info" where
  "get_AckNack_info ext pw rm info0 ackdelay_passed nackdelay_passed =
     (let mb = add_AckNack_makebitmaps ext pw rm info0;
          info = snd mb;
          r1 =
            (if \<not> fst mb then
               (AANR_ACK,
                \<lparr>seq_base = sn_bitmap_base (acknack_set info), seq_end_p1 = 0,
                 frag_base = 0, frag_end_p1 = 0\<rparr>,
                info\<lparr>info_nack_sent_on_nackdelay := nack_sent_on_nackdelay rm\<rparr>)
             else
               (let sbase = sn_bitmap_base (acknack_set info);
                    send_p1 = sbase + ucast (sn_numbits (acknack_set info));
                    fbase = (if 0 <s nackfrag_seq info
                             then fn_bitmap_base (nackfrag_set info) else 0);
                    fend_p1 = (if 0 <s nackfrag_seq info
                               then fn_bitmap_base (nackfrag_set info)
                                      + fn_numbits (nackfrag_set info)
                               else 0);
                    nack_summary = \<lparr>seq_base = sbase, seq_end_p1 = send_p1,
                                    frag_base = fbase, frag_end_p1 = fend_p1\<rparr>
                in if seq_end_p1 (last_nack rm) <s sbase
                      \<or> (sbase = seq_end_p1 (last_nack rm)
                          \<and> frag_end_p1 (last_nack rm) \<le> fbase)
                   then (AANR_NACK, nack_summary,
                         info\<lparr>info_nack_sent_on_nackdelay := False\<rparr>)
                   else if directed_heartbeat rm
                           \<and> (\<not> nack_sent_on_nackdelay rm \<or> nackdelay_passed)
                   then (AANR_NACK, nack_summary,
                         info\<lparr>info_nack_sent_on_nackdelay := False\<rparr>)
                   else if nackdelay_passed
                   then (AANR_NACK, nack_summary,
                         info\<lparr>info_nack_sent_on_nackdelay := True\<rparr>)
                   else (AANR_SUPPRESSED_NACK, nack_summary,
                         info\<lparr>info_nack_sent_on_nackdelay := nack_sent_on_nackdelay rm,
                              acknack_set := (acknack_set info)\<lparr>sn_numbits := 0\<rparr>,
                              nackfrag_seq := 0\<rparr>)));
          result = fst r1; nack_summary = fst (snd r1); info' = snd (snd r1);
          result' =
            (if result = AANR_ACK \<or> result = AANR_SUPPRESSED_NACK then
               (if \<not> (heartbeat_since_ack rm \<and> ack_requested rm) then AANR_SUPPRESSED_ACK
                else if \<not> (seq_base (last_nack rm) <s seq_base nack_summary
                              \<or> ackdelay_passed)
                then AANR_SUPPRESSED_ACK
                else result)
             else if sn_numbits (acknack_set info') = 0 \<and> 0 <s nackfrag_seq info'
                     \<and> \<not> ack_requested rm
             then AANR_NACKFRAG_ONLY
             else result)
      in (result', nack_summary, info'))"

text \<open>The conditions of the two \<open>assert\<close>s of the NACK branch of \<open>get_AckNack_info\<close>.\<close>

definition get_AckNack_info_assert :: "add_AckNack_info \<Rightarrow> bool" where
  "get_AckNack_info_assert info =
     ((1 \<le>s sn_bitmap_base (acknack_set info)
       \<and> (0 < sn_numbits (acknack_set info) \<or> 0 <s nackfrag_seq info))
      \<and> (nackfrag_seq info = 0 \<or> 0 < fn_numbits (nackfrag_set info)))"

text \<open>
  The local \<open>info\<close> of the two entry points is not initialised; the model starts it
  at zero.  \<open>get_AckNack_info\<close> writes every field before this file reads it.
\<close>

definition uninit_info :: add_AckNack_info where
  "uninit_info =
     \<lparr>info_nack_sent_on_nackdelay = False,
      acknack_set = \<lparr>sn_bitmap_base = 0, sn_numbits = 0\<rparr>,
      acknack_bits = replicate 8 0,
      nackfrag_seq = 0,
      nackfrag_set = \<lparr>fn_bitmap_base = 0, fn_numbits = 0\<rparr>,
      nackfrag_bits = replicate 8 0\<rparr>"

text \<open>
  The call of \<open>get_AckNack_info\<close> both entry points start with, the two delay
  predicates computed from \<open>tnow\<close>.
\<close>

definition acknack_decision ::
  "externs \<Rightarrow> mtime \<Rightarrow> state
     \<Rightarrow> add_AckNack_result \<times> last_nack_summary \<times> add_AckNack_info" where
  "acknack_decision ext tnow st =
     (let gvc = gv_config (pwr st);
          ackdelay_passed =
            (ddsrt_mtime_add_duration (t_last_ack (rwn st)) (ack_delay gvc) \<le> tnow);
          nackdelay_passed =
            (ddsrt_mtime_add_duration (t_last_nack (rwn st)) (nack_delay gvc) \<le> tnow)
      in get_AckNack_info ext (pwr st) (rwn st) uninit_info ackdelay_passed nackdelay_passed)"

definition sched_acknack_if_needed :: "externs \<Rightarrow> mtime \<Rightarrow> bool \<Rightarrow> state \<Rightarrow> state" where
  "sched_acknack_if_needed ext tnow avoid_suppressed_nack st =
     (let gvc = gv_config (pwr st);
          aanr = fst (acknack_decision ext tnow st)
      in if aanr = AANR_SUPPRESSED_ACK then st
         else if avoid_suppressed_nack \<and> aanr = AANR_SUPPRESSED_NACK then
           st\<lparr>ev := resched_xevent_if_earlier (ev st)
                    (ddsrt_mtime_add_duration (t_last_nack (rwn st)) (nack_delay gvc))\<rparr>
         else st\<lparr>ev := resched_xevent_if_earlier (ev st) tnow\<rparr>)"

text \<open>
  \<open>make_and_resched_acknack\<close> in parts.  \<open>acknack_clear_flags\<close> is the four
  assignments made on committing to a message.
\<close>

definition acknack_clear_flags :: "pwr_rd_match \<Rightarrow> add_AckNack_info \<Rightarrow> pwr_rd_match" where
  "acknack_clear_flags rm info =
     rm\<lparr>directed_heartbeat := False,
        heartbeat_since_ack := False,
        heartbeatfrag_since_ack := False,
        nack_sent_on_nackdelay := info_nack_sent_on_nackdelay info\<rparr>"

text \<open>
  From \<open>nn_xmsg_setdstPWR\<close> to the second \<open>ETRACE\<close>: the message as it stands before
  its size is looked at, and the match (whose \<open>hb_timestamp\<close> may have been consumed).
\<close>

definition acknack_assemble ::
  "externs \<Rightarrow> proxy_writer \<Rightarrow> pwr_rd_match \<Rightarrow> add_AckNack_result \<Rightarrow> add_AckNack_info
     \<Rightarrow> nn_xmsg \<Rightarrow> nn_xmsg \<times> pwr_rd_match" where
  "acknack_assemble ext pw rm aanr info msg0 =
     (let msg1 = nn_xmsg_setdstPWR msg0 pw;
          ts = (meas_hb_to_ack_latency (gv_config pw) \<and> hb_timestamp rm \<noteq> 0);
          msg2 = (if ts then nn_xmsg_add_timestamp msg1 (hb_timestamp rm) else msg1);
          rm1 = (if ts then rm\<lparr>hb_timestamp := 0\<rparr> else rm);
          msg3 = (if aanr \<noteq> AANR_NACKFRAG_ONLY then add_AckNack ext msg2 pw rm1 info
                  else msg2);
          msg4 = (if 0 <s nackfrag_seq info then add_NackFrag ext msg3 pw rm1 info
                  else msg3)
      in (msg4, rm1))"

text \<open>
  From \<open>rwn->count++\<close> to the end of the \<open>switch\<close>.  The case \<open>AANR_SUPPRESSED_ACK\<close>
  only holds \<open>assert (0)\<close>; \<open>st_nack\<close> is the state the shared case of \<open>AANR_NACK\<close>
  and \<open>AANR_NACKFRAG_ONLY\<close> leaves.
\<close>

definition acknack_commit ::
  "mtime \<Rightarrow> add_AckNack_result \<Rightarrow> last_nack_summary \<Rightarrow> state \<Rightarrow> state" where
  "acknack_commit tnow aanr nack_summary st0 =
     (let gvc = gv_config (pwr st0);
          st = st0\<lparr>rwn := (rwn st0)\<lparr>count := count (rwn st0) + 1\<rparr>\<rparr>;
          st1 = (if frag_end_p1 nack_summary \<noteq> 0
                 then st\<lparr>pwr := (pwr st)\<lparr>nackfragcount := nackfragcount (pwr st) + 1\<rparr>\<rparr>
                 else st);
          st2 = (if aanr \<noteq> AANR_NACKFRAG_ONLY
                 then st1\<lparr>rwn := (rwn st1)\<lparr>ack_requested := False, t_last_ack := tnow\<rparr>\<rparr>
                 else st1);
          st_nack = st2\<lparr>rwn := (rwn st2)\<lparr>last_nack := nack_summary, t_last_nack := tnow\<rparr>,
                        ev := resched_xevent_if_earlier (ev st2)
                                (ddsrt_mtime_add_duration tnow (auto_resched_nack_delay gvc))\<rparr>
      in case aanr of
           AANR_SUPPRESSED_ACK \<Rightarrow> st
         | AANR_ACK \<Rightarrow>
             st\<lparr>rwn := (rwn st)\<lparr>ack_requested := False, t_last_ack := tnow,
                    last_nack := (last_nack (rwn st))\<lparr>seq_base := seq_base nack_summary\<rparr>\<rparr>\<rparr>
         | AANR_SUPPRESSED_NACK \<Rightarrow>
             st\<lparr>rwn := (rwn st)\<lparr>ack_requested := False, t_last_ack := tnow,
                    last_nack := (last_nack (rwn st))\<lparr>seq_base := seq_base nack_summary\<rparr>\<rparr>,
                ev := resched_xevent_if_earlier (ev st)
                        (ddsrt_mtime_add_duration (t_last_nack (rwn st)) (nack_delay gvc))\<rparr>
         | AANR_NACK \<Rightarrow> st_nack
         | AANR_NACKFRAG_ONLY \<Rightarrow> st_nack)"

text \<open>
  The participant the message is allocated for: that of the reader, looked up when the
  proxy participant is secure and the reader exists, and none (\<open>NULL\<close>) otherwise.
\<close>

definition acknack_participant ::
  "externs \<Rightarrow> proxy_writer \<Rightarrow> pwr_rd_match \<Rightarrow> handle option" where
  "acknack_participant ext pw rm =
     (if q_omg_proxy_participant_is_secure ext (proxypp pw)
      then entidx_lookup_reader_guid ext (rd_guid rm)
      else None)"

definition make_and_resched_acknack ::
  "externs \<Rightarrow> mtime \<Rightarrow> bool \<Rightarrow> state \<Rightarrow> state \<times> nn_xmsg option" where
  "make_and_resched_acknack ext tnow avoid_suppressed_nack st =
     (let gvc = gv_config (pwr st);
          d = acknack_decision ext tnow st;
          aanr = fst d; nack_summary = fst (snd d); info = snd (snd d)
      in if aanr = AANR_SUPPRESSED_ACK then (st, None)
         else if avoid_suppressed_nack \<and> aanr = AANR_SUPPRESSED_NACK then
           (st\<lparr>ev := resched_xevent_if_earlier (ev st)
                     (ddsrt_mtime_add_duration (t_last_nack (rwn st)) (nack_delay gvc))\<rparr>,
            None)
         else
           (let st1 = st\<lparr>rwn := acknack_clear_flags (rwn st) info\<rparr>;
                pp = acknack_participant ext (pwr st1) (rwn st1)
            in case nn_xmsg_new ext (rd_guid (rwn st1)) pp of
                 None \<Rightarrow> (st1, None)
               | Some msg0 \<Rightarrow>
                   (let st2 = st1\<lparr>xmsgpool_live := Suc (xmsgpool_live st1)\<rparr>;
                        a = acknack_assemble ext (pwr st2) (rwn st2) aanr info msg0;
                        msg = fst a;
                        st3 = st2\<lparr>rwn := snd a\<rparr>
                    in if nn_xmsg_size msg = 0
                       then (st3\<lparr>xmsgpool_live := xmsgpool_live st3 - 1\<rparr>, None)
                       else (acknack_commit tnow aanr nack_summary st3, Some msg))))"

section \<open>The decision as the specification words it\<close>

text \<open>
  \<open>nack_region\<close> is the region a decision with NACK material describes: the base of the
  sequence bitmap, the base plus its number of bits, and the base and end of the
  fragment bitmap, both 0 when no fragments are NACKed.
\<close>

definition nack_region :: "add_AckNack_info \<Rightarrow> last_nack_summary" where
  "nack_region info =
     \<lparr>seq_base = sn_bitmap_base (acknack_set info),
      seq_end_p1 = sn_bitmap_base (acknack_set info) + ucast (sn_numbits (acknack_set info)),
      frag_base = (if 0 <s nackfrag_seq info then fn_bitmap_base (nackfrag_set info) else 0),
      frag_end_p1 = (if 0 <s nackfrag_seq info
                     then fn_bitmap_base (nackfrag_set info) + fn_numbits (nackfrag_set info)
                     else 0)\<rparr>"

text \<open>
  The three steps of section 4.4 of the specification, following its words.  Step 1,
  for a decision with NACK material: the region advanced; else a directed heartbeat
  with no delay-driven NACK before it, or the delay passed; else the delay passed; else
  the NACK is suppressed and the bitmap turned into a pure ACK.
\<close>

definition spec_region_advanced :: "last_nack_summary \<Rightarrow> last_nack_summary \<Rightarrow> bool" where
  "spec_region_advanced prev ns =
     (seq_end_p1 prev <s seq_base ns
      \<or> (seq_base ns = seq_end_p1 prev \<and> frag_end_p1 prev \<le> frag_base ns))"

definition spec_step1 ::
  "pwr_rd_match \<Rightarrow> bool \<Rightarrow> last_nack_summary \<Rightarrow> add_AckNack_info
     \<Rightarrow> add_AckNack_result \<times> add_AckNack_info" where
  "spec_step1 rm nackdelay_passed ns info =
     (if spec_region_advanced (last_nack rm) ns
      then (AANR_NACK, info\<lparr>info_nack_sent_on_nackdelay := False\<rparr>)
      else if directed_heartbeat rm \<and> (\<not> nack_sent_on_nackdelay rm \<or> nackdelay_passed)
      then (AANR_NACK, info\<lparr>info_nack_sent_on_nackdelay := False\<rparr>)
      else if nackdelay_passed
      then (AANR_NACK, info\<lparr>info_nack_sent_on_nackdelay := True\<rparr>)
      else (AANR_SUPPRESSED_NACK,
            info\<lparr>info_nack_sent_on_nackdelay := nack_sent_on_nackdelay rm,
                 acknack_set := (acknack_set info)\<lparr>sn_numbits := 0\<rparr>,
                 nackfrag_seq := 0\<rparr>))"

text \<open>
  Step 2 (pure-ACK gating): a result ACK or SUPPRESSED\_NACK is demoted to
  SUPPRESSED\_ACK unless a heartbeat came since the last ack, the writer asked for an
  ack, and the base moved past the last one or the ack delay passed.
\<close>

definition spec_step2 ::
  "pwr_rd_match \<Rightarrow> bool \<Rightarrow> last_nack_summary \<Rightarrow> add_AckNack_result \<Rightarrow> add_AckNack_result" where
  "spec_step2 rm ackdelay_passed ns result =
     (if result = AANR_ACK \<or> result = AANR_SUPPRESSED_NACK then
        (if heartbeat_since_ack rm \<and> ack_requested rm
            \<and> (seq_base (last_nack rm) <s seq_base ns \<or> ackdelay_passed)
         then result else AANR_SUPPRESSED_ACK)
      else result)"

text \<open>
  Step 3 (NackFrag only): an empty sequence bitmap with fragments to NACK and no ack
  requested gives NACKFRAG\_ONLY.
\<close>

definition spec_step3 ::
  "pwr_rd_match \<Rightarrow> add_AckNack_info \<Rightarrow> add_AckNack_result \<Rightarrow> add_AckNack_result" where
  "spec_step3 rm info result =
     (if sn_numbits (acknack_set info) = 0 \<and> 0 <s nackfrag_seq info \<and> \<not> ack_requested rm
      then AANR_NACKFRAG_ONLY else result)"

text \<open>
  The names the statement about the bitmap builder needs.  \<open>first_pass\<close> is the
  sequence NACK bitmap the reorder buffer produces for the selected source, the set
  header and the bits.
\<close>

definition first_pass ::
  "externs \<Rightarrow> proxy_writer \<Rightarrow> pwr_rd_match \<Rightarrow> nn_sequence_number_set_header \<times> 32 word list" where
  "first_pass ext pw rm =
     (let src = add_AckNack_getsource ext pw rm
      in nn_reorder_nackmap ext (fst src) (fst (snd src))
           (if filtered rm then rwn_last_seq rm else last_seq pw)
           NN_SEQUENCE_NUMBER_SET_MAX_BITS (snd (snd src)))"

text \<open>
  \<open>scan_answer\<close> is what the defragmenter answers for the sample at index \<open>i\<close> of a
  bitmap with base \<open>base\<close>: its verdict and what it writes.  The scan stops at \<open>i\<close> when
  bit \<open>i\<close> is set and the verdict is not UNKNOWN\_SAMPLE.  \<open>scan_write\<close> puts what a call
  wrote into the fragment buffers of \<open>info\<close>.
\<close>

definition scan_answer ::
  "externs \<Rightarrow> proxy_writer \<Rightarrow> seqno_t \<Rightarrow> 32 word
     \<Rightarrow> nn_defrag_nackmap_result \<times> (nn_fragment_number_set_header \<times> 32 word list) option" where
  "scan_answer ext pw base i =
     nn_defrag_nackmap ext (defrag pw) (base + ucast i)
       (if base + ucast i = last_seq pw then last_fragnum pw else UINT32_MAX)
       NN_FRAGMENT_NUMBER_SET_MAX_BITS"

definition scan_stops ::
  "externs \<Rightarrow> proxy_writer \<Rightarrow> 32 word \<Rightarrow> 32 word list \<Rightarrow> seqno_t \<Rightarrow> 32 word \<Rightarrow> bool" where
  "scan_stops ext pw numbits bits base i =
     (nn_bitset_isset numbits bits i
      \<and> fst (scan_answer ext pw base i) \<noteq> DEFRAG_NACKMAP_UNKNOWN_SAMPLE)"

definition scan_write ::
  "(nn_fragment_number_set_header \<times> 32 word list) option \<Rightarrow> add_AckNack_info
     \<Rightarrow> add_AckNack_info" where
  "scan_write w info =
     (case w of None \<Rightarrow> info
      | Some w \<Rightarrow> info\<lparr>nackfrag_set := fst w, nackfrag_bits := snd w\<rparr>)"

text \<open>
  The names the statements about the committer need.  \<open>nackfrag_counts\<close> lists the
  count fields of the NackFrag submessages of a message, in order.
\<close>

fun submsg_nackfrag_count :: "submsg \<Rightarrow> nn_count_t list" where
  "submsg_nackfrag_count (SM_NACKFRAG nf) = [nf_count nf]"
| "submsg_nackfrag_count (SM_INFO_TS t) = []"
| "submsg_nackfrag_count (SM_ACKNACK an) = []"
| "submsg_nackfrag_count (SM_ENCODED bs) = []"

definition nackfrag_counts :: "nn_xmsg \<Rightarrow> nn_count_t list" where
  "nackfrag_counts msg = concat (map submsg_nackfrag_count (xmsg_submsgs msg))"

text \<open>
  A fragment set is in range when it is not empty (what \<open>add_NackFrag\<close> and
  \<open>get_AckNack_info\<close> assert) and its fragment numbers, which are 32-bit, do not run
  past \<open>2^32\<close>.
\<close>

definition fragment_set_in_range :: "nn_fragment_number_set_header \<Rightarrow> bool" where
  "fragment_set_in_range fs =
     (0 < fn_numbits fs \<and> unat (fn_bitmap_base fs) + unat (fn_numbits fs) < 2 ^ 32)"

text \<open>
  NACK material is in range when the two assertions of \<open>get_AckNack_info\<close> hold of it,
  the end of the sequence bitmap does not overflow a \<open>seqno_t\<close>, and the fragment set,
  when there is one, is in range.
\<close>

definition nack_material_in_range :: "add_AckNack_info \<Rightarrow> bool" where
  "nack_material_in_range info =
     (get_AckNack_info_assert info
      \<and> sint (sn_bitmap_base (acknack_set info)) + uint (sn_numbits (acknack_set info)) < 2 ^ 63
      \<and> (0 <s nackfrag_seq info \<longrightarrow> fragment_set_in_range (nackfrag_set info)))"

section \<open>Example state\<close>

text \<open>
  A proxy writer and a match with every field fixed, for the concrete instances below:
  sequence numbers up to 12 heard of, nothing NACKed before, delays of 10 and 100.
\<close>

definition pwr_ex :: proxy_writer where
  "pwr_ex =
     \<lparr>guid = \<lparr>prefix = 1, entityid = 0x102\<rparr>,
      gv_config = \<lparr>late_ack_mode = False, ack_delay = 10, nack_delay = 100,
                   auto_resched_nack_delay = 1000, meas_hb_to_ack_latency = False\<rparr>,
      proxypp = 0,
      last_seq = 12,
      last_fragnum = 0,
      next_deliv_seq_lowword = 1,
      reorder = 1,
      defrag = 2,
      dqueue = 3,
      nackfragcount = 5\<rparr>"

definition rwn_ex :: pwr_rd_match where
  "rwn_ex =
     \<lparr>rd_guid = \<lparr>prefix = 2, entityid = 0x107\<rparr>,
      in_sync = PRMSS_SYNC,
      filtered = False,
      rwn_last_seq = 0,
      not_in_sync_reorder = 4,
      count = 7,
      last_nack = \<lparr>seq_base = 0, seq_end_p1 = 0, frag_base = 0, frag_end_p1 = 0\<rparr>,
      nack_sent_on_nackdelay = False,
      heartbeat_since_ack = False,
      heartbeatfrag_since_ack = False,
      ack_requested = False,
      directed_heartbeat = False,
      t_last_ack = 0,
      t_last_nack = 0,
      hb_timestamp = 0\<rparr>"

text \<open>
  Collaborators for the concrete instances: the reorder buffer expects 10 next and
  reports samples 10 and 12 missing out of 10..12 (bits 0 and 2 of a 3-bit map, most
  significant bit first), the defragmenter knows none of them, the delivery queue has
  room, nothing is secured, allocation succeeds.
\<close>

definition ext_ex :: externs where
  "ext_ex =
     \<lparr>nn_reorder_next_seq = (\<lambda>r. 10),
      nn_reorder_nackmap = (\<lambda>r base maxseq maxsz notail.
        (\<lparr>sn_bitmap_base = base, sn_numbits = 3\<rparr>, [0xA0000000, 0, 0, 0, 0, 0, 0, 0])),
      nn_defrag_nackmap = (\<lambda>d seq maxfragnum maxsz. (DEFRAG_NACKMAP_UNKNOWN_SAMPLE, None)),
      nn_dqueue_is_full = (\<lambda>q. False),
      q_omg_proxy_participant_is_secure = (\<lambda>p. False),
      entidx_lookup_reader_guid = (\<lambda>g. None),
      nn_xmsg_new_ok = True,
      encode_datareader_submsg = (\<lambda>msg marker pg rg. msg)\<rparr>"

text \<open>The example state: the event far in the future, no message live.\<close>

definition st_ex :: state where
  "st_ex = \<lparr>ev = 1000000, pwr = pwr_ex, rwn = rwn_ex, xmsgpool_live = 0\<rparr>"

text \<open>
  Collaborators for a fragmented sample: samples 10, 11 and 12 are missing, and the
  defragmenter has part of sample 10: its fragment set starts at fragment 1 (counted
  from 0) and has four bits, of which the first and the last are set, so fragments 1
  and 4 are missing.
\<close>

definition ext_frag :: externs where
  "ext_frag =
     ext_ex\<lparr>nn_reorder_nackmap := (\<lambda>r base maxseq maxsz notail.
               (\<lparr>sn_bitmap_base = base, sn_numbits = 3\<rparr>, [0xE0000000, 0, 0, 0, 0, 0, 0, 0])),
            nn_defrag_nackmap := (\<lambda>d seq maxfragnum maxsz.
               if seq = 10
               then (DEFRAG_NACKMAP_FRAGMENTS_MISSING,
                     Some (\<lparr>fn_bitmap_base = 1, fn_numbits = 4\<rparr>,
                           [0x90000000, 0, 0, 0, 0, 0, 0, 0]))
               else (DEFRAG_NACKMAP_UNKNOWN_SAMPLE, None))\<rparr>"


text \<open>
  A match that has already NACKed exactly these fragments, at time 40.
\<close>

definition rwn_overlap :: pwr_rd_match where
  "rwn_overlap =
     rwn_ex\<lparr>last_nack := \<lparr>seq_base = 10, seq_end_p1 = 10, frag_base = 1, frag_end_p1 = 5\<rparr>,
            t_last_nack := 40\<rparr>"

text \<open>
  Two more sets of collaborators: a defragmenter that has every advertised fragment of
  sample 12, and a reorder buffer with nothing missing.
\<close>

definition ext_known :: externs where
  "ext_known =
     ext_ex\<lparr>nn_defrag_nackmap := (\<lambda>d seq maxfragnum maxsz.
               if seq = 12 then (DEFRAG_NACKMAP_ALL_ADVERTISED_FRAGMENTS_KNOWN, None)
               else (DEFRAG_NACKMAP_UNKNOWN_SAMPLE, None))\<rparr>"

definition ext_empty :: externs where
  "ext_empty =
     ext_ex\<lparr>nn_reorder_nackmap := (\<lambda>r base maxseq maxsz notail.
               (\<lparr>sn_bitmap_base = base, sn_numbits = 0\<rparr>, replicate 8 0))\<rparr>"

text \<open>
  A security layer that fails to encode and removes the submessage it was handed, and
  a state in which a directed heartbeat has just arrived.
\<close>

definition ext_drop :: externs where
  "ext_drop =
     ext_ex\<lparr>encode_datareader_submsg := (\<lambda>msg marker pg rg.
               msg\<lparr>xmsg_submsgs := take marker (xmsg_submsgs msg)\<rparr>)\<rparr>"

definition st_hb :: state where
  "st_hb = st_ex\<lparr>rwn := rwn_ex\<lparr>heartbeat_since_ack := True, directed_heartbeat := True\<rparr>\<rparr>"

text \<open>
  Scenario S2 of the specification: the reorder buffer expects sequence number 1 and
  has nothing missing, a heartbeat has arrived since the last ack and asked for one,
  and the ack delay (10 from time 0) has passed at time 50.
\<close>

definition ext_s2 :: externs where
  "ext_s2 = ext_empty\<lparr>nn_reorder_next_seq := (\<lambda>r. 1)\<rparr>"

definition st_s2 :: state where
  "st_s2 = st_ex\<lparr>pwr := pwr_ex\<lparr>last_seq := 0\<rparr>,
                 rwn := rwn_ex\<lparr>heartbeat_since_ack := True, ack_requested := True\<rparr>\<rparr>"

text \<open>
  A match that is owed an ack while its NACK of the fragments is still pending, and a
  proxy writer configured with a NACK delay of 0.
\<close>

definition st_avoid :: state where
  "st_avoid = st_ex\<lparr>rwn := rwn_overlap\<lparr>heartbeat_since_ack := True, ack_requested := True\<rparr>\<rparr>"

definition st_nodelay :: state where
  "st_nodelay = st_ex\<lparr>pwr := pwr_ex\<lparr>gv_config := (gv_config pwr_ex)\<lparr>nack_delay := 0\<rparr>\<rparr>\<rparr>"

section \<open>The next sequence number to deliver\<close>

lemma ucast_UINT32_MAX: "(ucast UINT32_MAX :: 64 word) = mask 32"
  by (simp add: UINT32_MAX_def mask_eq_exp_minus_1)

lemma hi_part: "(n :: 64 word) AND NOT (ucast UINT32_MAX) = push_bit 32 (drop_bit 32 n)"
  unfolding ucast_UINT32_MAX
  by (rule bit_word_eqI) (auto simp add: bit_simps)

lemma lo_part: "(ucast (ucast (d :: 64 word) :: 32 word) :: 64 word) = take_bit 32 d"
  by (rule bit_word_eqI) (auto simp add: bit_simps)

lemma recon_plus:
  "(push_bit 32 (drop_bit 32 (n :: 64 word))) OR take_bit 32 (d :: 64 word)
     = push_bit 32 (drop_bit 32 n) + take_bit 32 d"
  by (rule disjunctive_add [symmetric]) (auto simp add: bit_simps)

lemma uint_hi: "uint (push_bit 32 (drop_bit 32 (n :: 64 word))) = (uint n div 2 ^ 32) * 2 ^ 32"
proof -
  have n64: "take_bit 64 (uint n) = uint n"
    using uint_bounded [of n] by (intro take_bit_int_eq_self) simp_all
  have "uint (push_bit 32 (drop_bit 32 n)) = take_bit 64 (push_bit 32 (drop_bit 32 (uint n)))"
    by (simp add: unsigned_push_bit_eq unsigned_drop_bit_eq n64)
  also have "\<dots> = push_bit 32 (drop_bit 32 (uint n))"
  proof (rule take_bit_int_eq_self)
    show "0 \<le> push_bit 32 (drop_bit 32 (uint n))" by simp
    have "(uint n div 2 ^ 32) * 2 ^ 32 \<le> uint n"
      by (metis add_increasing2 div_mult_mod_eq order_refl pos_mod_sign zero_less_numeral zero_less_power)
    then have "push_bit 32 (drop_bit 32 (uint n)) \<le> uint n"
      by (simp only: push_bit_eq_mult drop_bit_eq_div)
    also have "uint n < 2 ^ 64" using uint_bounded [of n] by simp
    finally show "push_bit 32 (drop_bit 32 (uint n)) < 2 ^ 64" .
  qed
  finally show ?thesis by (simp only: push_bit_eq_mult drop_bit_eq_div)
qed

lemma uint_lo: "uint (take_bit 32 (d :: 64 word)) = uint d mod 2 ^ 32"
proof -
  have "uint (take_bit 32 d) = take_bit 32 (uint d)"
    by (rule unsigned_take_bit_eq)
  also have "\<dots> = uint d mod 2 ^ 32"
    by (rule take_bit_eq_mod)
  finally show ?thesis .
qed

lemma int_recon:
  fixes N D M :: int
  assumes "0 < M" "D \<le> N" "N - D < M"
  shows "(if N < (N div M) * M + D mod M
          then (N div M) * M + D mod M - M
          else (N div M) * M + D mod M) = D"
proof -
  have hi: "(N div M) * M = N - N mod M"
    by (simp add: minus_mod_eq_div_mult)
  have r: "0 \<le> N mod M" "N mod M < M" and r': "0 \<le> D mod M" "D mod M < M"
    using assms(1) by simp_all
  have "(N - D) mod M = N - D"
    using assms by simp
  then have eq: "(N mod M - D mod M) mod M = N - D"
    by (simp add: mod_diff_eq)
  show ?thesis
  proof (cases "D mod M \<le> N mod M")
    case True
    then have "(N mod M - D mod M) mod M = N mod M - D mod M"
      using r r' by (intro mod_pos_pos_trivial) linarith+
    with eq hi True show ?thesis by simp
  next
    case False
    have "(N mod M - D mod M) mod M = (N mod M - D mod M + M) mod M"
      by simp
    also have "\<dots> = N mod M - D mod M + M"
      using False r r' by (intro mod_pos_pos_trivial) linarith+
    finally show ?thesis using eq hi False by simp
  qed
qed


lemma sint_nonneg_uint:
  fixes w :: "64 word"
  assumes "0 \<le> sint w"
  shows "uint w = sint w"
proof -
  have "sint w < 2 ^ 63" using sint_lt [of w] by simp
  then have "sint w < 2 ^ 64" by simp
  with assms have "take_bit 64 (sint w) = sint w"
    by (intro take_bit_int_eq_self)
  then show ?thesis by (simp add: uint_sint)
qed

lemma uint_small_sint:
  fixes w :: "64 word"
  assumes "uint w < 2 ^ 63"
  shows "sint w = uint w"
proof -
  have "- (2 ^ 63) \<le> (0 :: int)" by simp
  also have "0 \<le> uint w" by simp
  finally have "- (2 ^ 63) \<le> uint w" .
  then have "signed_take_bit 63 (uint w) = uint w"
    using assms by (rule signed_take_bit_int_eq_self)
  then show ?thesis by (simp add: sint_uint)
qed

lemma next_deliv_seq_exact:
  fixes next_seq nd :: seqno_t
  assumes n1: "1 \<le>s next_seq" and d1: "1 \<le>s nd" and dn: "nd \<le>s next_seq"
    and gap: "sint next_seq - sint nd < 2 ^ 32"
    and lw: "next_deliv_seq_lowword pw = ucast nd"
  shows "next_deliv_seq pw next_seq = nd"
proof -
  define N where "N = uint next_seq"
  define D where "D = uint nd"
  define X where "X = (N div 2 ^ 32) * 2 ^ 32 + D mod 2 ^ 32"
  define nd' where "nd' = (next_seq AND NOT (ucast UINT32_MAX)) OR ucast (ucast nd :: 32 word)"
  have sN: "sint next_seq = N" and sD: "sint nd = D"
    using n1 d1 by (simp_all add: N_def D_def word_sle_eq sint_nonneg_uint)
  have D0: "0 < D" and DN: "D \<le> N" and gap': "N - D < 2 ^ 32"
    using d1 dn gap by (simp_all add: word_sle_eq sN sD)
  have N63: "N < 2 ^ 63"
    using sint_lt [of next_seq] by (simp add: sN)
  have "N div 2 ^ 32 < 2 ^ 31"
    using N63 by (simp add: div_less_iff_less_mult)
  then have hi63: "(N div 2 ^ 32) * 2 ^ 32 \<le> 2 ^ 63 - 2 ^ 32"
    by simp
  have lo: "0 \<le> D mod 2 ^ 32" "D mod 2 ^ 32 < 2 ^ 32"
    by simp_all
  have hi0: "0 \<le> (N div 2 ^ 32) * 2 ^ 32"
    using D0 DN by (simp add: pos_imp_zdiv_nonneg_iff)
  have X0: "0 \<le> X" and X63: "X < 2 ^ 63"
    using hi63 hi0 lo by (simp_all add: X_def)
  have "nd' = push_bit 32 (drop_bit 32 next_seq) + take_bit 32 nd"
    by (simp only: nd'_def hi_part lo_part recon_plus)
  then have "uint nd' = X mod 2 ^ 64"
    by (simp only: uint_word_ariths uint_hi uint_lo X_def N_def D_def) simp
  also have "\<dots> = X"
    using X0 X63 by (intro mod_pos_pos_trivial) simp_all
  finally have uX: "uint nd' = X" .
  then have sX: "sint nd' = X"
    using X63 by (simp add: uint_small_sint)
  have rec: "(if N < X then X - 2 ^ 32 else X) = D"
    unfolding X_def using DN gap' by (intro int_recon) simp_all
  have res: "next_deliv_seq pw next_seq = (if next_seq <s nd' then nd' - push_bit 32 1 else nd')"
    by (simp add: next_deliv_seq_def nd'_def lw Let_def)
  show ?thesis
  proof (cases "N < X")
    case True
    with rec have "X = D + 2 ^ 32" by simp
    then have "uint nd' = uint nd + 2 ^ 32" by (simp add: uX D_def)
    then have "word_of_int (uint nd') = (word_of_int (uint nd + 2 ^ 32) :: 64 word)" by simp
    then have "nd' = nd + 2 ^ 32" by simp
    moreover have "next_seq <s nd'" using True by (simp add: word_sless_alt sN sX)
    ultimately show ?thesis by (simp add: res)
  next
    case False
    with rec have "X = D" by simp
    then have "uint nd' = uint nd" by (simp add: uX D_def)
    then have "nd' = nd" by (rule word_uint_eqI)
    moreover have "\<not> next_seq <s nd'" using False by (simp add: word_sless_alt sN sX)
    ultimately show ?thesis by (simp add: res)
  qed
qed


text \<open>
  C2.  Let \<open>next_seq \<ge> 1\<close> and let \<open>nd\<close> be the true next sequence number to deliver:
  \<open>1 \<le> nd \<le> next_seq\<close> (sequence numbers start at 1) and \<open>next_seq - nd < 2^32\<close>, which
  every \<open>N\<close> much smaller than \<open>2^32\<close> satisfies.  If the published low word is the low
  32 bits of \<open>nd\<close>, then \<open>next_deliv_seq\<close> returns exactly \<open>nd\<close>, and the value it returns
  satisfies its assertion \<open>0 < result \<le> next_seq\<close>.
\<close>

theorem next_deliv_seq_reconstructs:
  fixes next_seq nd :: seqno_t
  assumes "1 \<le>s next_seq" and "1 \<le>s nd" and "nd \<le>s next_seq"
    and "sint next_seq - sint nd < 2 ^ 32"
    and "next_deliv_seq_lowword pw = ucast nd"
  shows "next_deliv_seq pw next_seq = nd
    \<and> next_deliv_seq_assert (next_deliv_seq pw next_seq) next_seq"
proof -
  have eq: "next_deliv_seq pw next_seq = nd"
    using assms by (rule next_deliv_seq_exact)
  have "0 <s nd"
    using assms(2) by (simp add: word_sle_eq word_sless_alt)
  with assms(3) eq show ?thesis
    by (simp add: next_deliv_seq_assert_def)
qed

text \<open>
  The instance \<open>next_seq = 2^32 + 3\<close>, \<open>nd = 2^32 - 2\<close>: the high word of \<open>next_seq\<close> is one
  too many and the subtraction of \<open>2^32\<close> corrects it.
\<close>

theorem next_deliv_seq_reconstructs_witness:
  "next_deliv_seq (pwr_ex\<lparr>next_deliv_seq_lowword := 0xFFFFFFFE\<rparr>) 0x100000003 = 0xFFFFFFFE
   \<and> next_deliv_seq_assert
        (next_deliv_seq (pwr_ex\<lparr>next_deliv_seq_lowword := 0xFFFFFFFE\<rparr>) 0x100000003)
        0x100000003"
proof -
  have h1: "1 \<le>s (0x100000003 :: seqno_t)" by (simp add: word_sle_eq)
  have h2: "1 \<le>s (0xFFFFFFFE :: seqno_t)" by (simp add: word_sle_eq)
  have h3: "(0xFFFFFFFE :: seqno_t) \<le>s 0x100000003" by simp
  have h4: "sint (0x100000003 :: seqno_t) - sint (0xFFFFFFFE :: seqno_t) < 2 ^ 32" by simp
  have h5: "next_deliv_seq_lowword (pwr_ex\<lparr>next_deliv_seq_lowword := 0xFFFFFFFE\<rparr>)
    = ucast (0xFFFFFFFE :: seqno_t)" by simp
  show ?thesis
    by (rule next_deliv_seq_reconstructs [OF h1 h2 h3 h4 h5])
qed

section \<open>The source selector\<close>

text \<open>
  C8.  \<open>add_AckNack_getsource\<close> picks the reorder buffer of the match, its next
  sequence number as the base and \<open>notail = false\<close> when the match is out of sync or
  filtered; the reorder buffer of the proxy writer, its next sequence number and
  \<open>notail = false\<close> when late-ack mode is off; and otherwise the reorder buffer of the
  proxy writer, \<open>next_deliv_seq\<close> of its next sequence number as the base, and the
  delivery queue's is-full predicate as \<open>notail\<close>.
\<close>

theorem add_AckNack_getsource_selects:
  "add_AckNack_getsource ext pw rm =
     (if in_sync rm = PRMSS_OUT_OF_SYNC \<or> filtered rm then
        (not_in_sync_reorder rm, nn_reorder_next_seq ext (not_in_sync_reorder rm), False)
      else if \<not> late_ack_mode (gv_config pw) then
        (reorder pw, nn_reorder_next_seq ext (reorder pw), False)
      else
        (reorder pw, next_deliv_seq pw (nn_reorder_next_seq ext (reorder pw)),
         nn_dqueue_is_full ext (dqueue pw)))"
  by (simp add: add_AckNack_getsource_def Let_def)

text \<open>
  The three branches at concrete inputs: late-ack mode with the reorder buffer at 50, the
  low word at 45 and a full delivery queue; late-ack mode off; and a match out of sync.
\<close>

theorem add_AckNack_getsource_selects_witness:
  "add_AckNack_getsource
     (ext_ex\<lparr>nn_reorder_next_seq := (\<lambda>r. 50), nn_dqueue_is_full := (\<lambda>q. True)\<rparr>)
     (pwr_ex\<lparr>gv_config := (gv_config pwr_ex)\<lparr>late_ack_mode := True\<rparr>,
             next_deliv_seq_lowword := 45, last_seq := 60\<rparr>)
     rwn_ex
   = (1, 45, True)
   \<and> add_AckNack_getsource ext_ex pwr_ex rwn_ex = (1, 10, False)
   \<and> add_AckNack_getsource ext_ex pwr_ex (rwn_ex\<lparr>in_sync := PRMSS_OUT_OF_SYNC\<rparr>)
     = (4, 10, False)"
proof -
  have "next_deliv_seq (pwr_ex\<lparr>gv_config := (gv_config pwr_ex)\<lparr>late_ack_mode := True\<rparr>,
             next_deliv_seq_lowword := 45, last_seq := 60\<rparr>) 50 = 45"
    by (simp add: next_deliv_seq_def UINT32_MAX_def Let_def word_sless_alt)
  then show ?thesis
    unfolding add_AckNack_getsource_selects
    by (simp add: ext_ex_def pwr_ex_def rwn_ex_def)
qed

section \<open>The predictive entry point\<close>

lemma sched_acknack_if_needed_frame:
  "pwr (sched_acknack_if_needed ext tnow a st) = pwr st
   \<and> rwn (sched_acknack_if_needed ext tnow a st) = rwn st
   \<and> xmsgpool_live (sched_acknack_if_needed ext tnow a st) = xmsgpool_live st"
  by (simp add: sched_acknack_if_needed_def Let_def)

lemma acknack_decision_cong:
  "pwr st' = pwr st \<Longrightarrow> rwn st' = rwn st
     \<Longrightarrow> acknack_decision ext tnow st' = acknack_decision ext tnow st"
  by (simp add: acknack_decision_def)

lemma sched_fold_frame:
  "pwr (fold (\<lambda>(e, t, a). sched_acknack_if_needed e t a) calls st) = pwr st
   \<and> rwn (fold (\<lambda>(e, t, a). sched_acknack_if_needed e t a) calls st) = rwn st
   \<and> xmsgpool_live (fold (\<lambda>(e, t, a). sched_acknack_if_needed e t a) calls st)
       = xmsgpool_live st"
proof (induction calls arbitrary: st)
  case Nil
  show ?case by simp
next
  case (Cons c calls)
  obtain e t a where c: "c = (e, t, a)" by (cases c)
  show ?case
    using Cons.IH [of "sched_acknack_if_needed e t a st"] sched_acknack_if_needed_frame [of e t a st]
    by (simp add: c)
qed

text \<open>
  C10.  \<open>sched_acknack_if_needed\<close> changes no field of the proxy writer and none of the
  match, and allocates nothing: only the event can differ.  So after any sequence of
  calls (each with its own collaborators' answers, time and flag) the proxy writer and
  the match are what they were, and the decision taken on them is the same.
\<close>

theorem sched_acknack_if_needed_modifies_nothing:
  "pwr (sched_acknack_if_needed ext tnow avoid st) = pwr st
   \<and> rwn (sched_acknack_if_needed ext tnow avoid st) = rwn st
   \<and> xmsgpool_live (sched_acknack_if_needed ext tnow avoid st) = xmsgpool_live st
   \<and> pwr (fold (\<lambda>(e, t, a). sched_acknack_if_needed e t a) calls st) = pwr st
   \<and> rwn (fold (\<lambda>(e, t, a). sched_acknack_if_needed e t a) calls st) = rwn st
   \<and> acknack_decision ext' tnow'
        (fold (\<lambda>(e, t, a). sched_acknack_if_needed e t a) calls st)
       = acknack_decision ext' tnow' st"
proof -
  note one = sched_acknack_if_needed_frame [of ext tnow avoid st]
  note many = sched_fold_frame [of calls st]
  have "acknack_decision ext' tnow'
        (fold (\<lambda>(e, t, a). sched_acknack_if_needed e t a) calls st)
       = acknack_decision ext' tnow' st"
    using many by (intro acknack_decision_cong) simp_all
  with one many show ?thesis by simp
qed

text \<open>
  On the example state one call at time 50 rearms the event to 50 and nothing else; two
  calls in a row leave the proxy writer and the match as they were.
\<close>

theorem sched_acknack_if_needed_modifies_nothing_witness:
  "sched_acknack_if_needed ext_ex 50 True st_ex = st_ex\<lparr>ev := 50\<rparr>
   \<and> pwr (fold (\<lambda>(e, t, a). sched_acknack_if_needed e t a)
             [(ext_ex, 50, True), (ext_ex, 60, False)] st_ex) = pwr_ex
   \<and> rwn (fold (\<lambda>(e, t, a). sched_acknack_if_needed e t a)
             [(ext_ex, 50, True), (ext_ex, 60, False)] st_ex) = rwn_ex"
proof -
  have "fst (acknack_decision ext_ex 50 st_ex) = AANR_NACK"
    by code_simp
  then have a: "sched_acknack_if_needed ext_ex 50 True st_ex = st_ex\<lparr>ev := 50\<rparr>"
    by (simp add: sched_acknack_if_needed_def Let_def resched_xevent_if_earlier_def st_ex_def)
  note t = sched_acknack_if_needed_modifies_nothing
      [of ext_ex 50 True st_ex "[(ext_ex, 50, True), (ext_ex, 60, False)]" ext_ex 50]
  have s: "pwr st_ex = pwr_ex" "rwn st_ex = rwn_ex"
    by (simp_all add: st_ex_def)
  from t have b: "pwr (fold (\<lambda>(e, t, a). sched_acknack_if_needed e t a)
             [(ext_ex, 50, True), (ext_ex, 60, False)] st_ex) = pwr_ex"
    unfolding s by (elim conjE)
  from t have c: "rwn (fold (\<lambda>(e, t, a). sched_acknack_if_needed e t a)
             [(ext_ex, 50, True), (ext_ex, 60, False)] st_ex) = rwn_ex"
    unfolding s by (elim conjE)
  from a b c show ?thesis by (intro conjI)
qed

section \<open>The bitmap builder\<close>

text \<open>One iteration of the loop, by the branch it takes.\<close>

lemma scan_write_frame:
  "acknack_set (scan_write w info) = acknack_set info"
  "acknack_bits (scan_write w info) = acknack_bits info"
  "nackfrag_seq (scan_write w info) = nackfrag_seq info"
  by (simp_all add: scan_write_def split: option.split)

lemma makebitmaps_loop_exit:
  "\<not> i < numbits \<Longrightarrow> makebitmaps_loop ext pw numbits base i info = (True, info)"
  by (subst makebitmaps_loop.simps) simp

lemma makebitmaps_loop_skip:
  "i < numbits \<Longrightarrow> \<not> nn_bitset_isset numbits (acknack_bits info) i
     \<Longrightarrow> makebitmaps_loop ext pw numbits base i info
         = makebitmaps_loop ext pw numbits base (i + 1) info"
  by (subst makebitmaps_loop.simps) simp

lemma makebitmaps_loop_unknown:
  "i < numbits \<Longrightarrow> nn_bitset_isset numbits (acknack_bits info) i
     \<Longrightarrow> fst (scan_answer ext pw base i) = DEFRAG_NACKMAP_UNKNOWN_SAMPLE
     \<Longrightarrow> makebitmaps_loop ext pw numbits base i info
         = makebitmaps_loop ext pw numbits base (i + 1)
             (scan_write (snd (scan_answer ext pw base i)) info)"
  by (subst makebitmaps_loop.simps) (simp add: scan_answer_def scan_write_def Let_def)

lemma makebitmaps_loop_all_known:
  "i < numbits \<Longrightarrow> nn_bitset_isset numbits (acknack_bits info) i
     \<Longrightarrow> fst (scan_answer ext pw base i) = DEFRAG_NACKMAP_ALL_ADVERTISED_FRAGMENTS_KNOWN
     \<Longrightarrow> makebitmaps_loop ext pw numbits base i info
         = (0 < i, (scan_write (snd (scan_answer ext pw base i)) info)
               \<lparr>nackfrag_seq := 0,
                acknack_set := (acknack_set info)\<lparr>sn_numbits := i\<rparr>\<rparr>)"
  by (subst makebitmaps_loop.simps)
     (simp add: scan_answer_def scan_write_def Let_def split: option.split)

lemma makebitmaps_loop_missing:
  "i < numbits \<Longrightarrow> nn_bitset_isset numbits (acknack_bits info) i
     \<Longrightarrow> fst (scan_answer ext pw base i) = DEFRAG_NACKMAP_FRAGMENTS_MISSING
     \<Longrightarrow> makebitmaps_loop ext pw numbits base i info
         = (True, (scan_write (snd (scan_answer ext pw base i)) info)
               \<lparr>nackfrag_seq := base + ucast i,
                acknack_set := (acknack_set info)\<lparr>sn_numbits := i\<rparr>\<rparr>)"
  by (subst makebitmaps_loop.simps)
     (simp add: scan_answer_def scan_write_def Let_def split: option.split)

lemma makebitmaps_loop_runs_through:
  assumes "\<forall>k. j \<le> k \<and> k < numbits \<longrightarrow> \<not> scan_stops ext pw numbits (acknack_bits info) base k"
  shows "fst (makebitmaps_loop ext pw numbits base j info)
    \<and> acknack_set (snd (makebitmaps_loop ext pw numbits base j info)) = acknack_set info
    \<and> acknack_bits (snd (makebitmaps_loop ext pw numbits base j info)) = acknack_bits info
    \<and> nackfrag_seq (snd (makebitmaps_loop ext pw numbits base j info)) = nackfrag_seq info"
  using assms
proof (induction "unat numbits - unat j" arbitrary: j info)
  case 0
  then have "\<not> j < numbits" by (simp add: word_less_nat_alt)
  then show ?case by (simp add: makebitmaps_loop_exit)
next
  case (Suc n)
  then have lt: "j < numbits" by (simp add: word_less_nat_alt)
  have n: "n = unat numbits - unat (j + 1)"
    using Suc.hyps(2) loop_index_succ [OF lt] by simp
  have up: "\<And>k. j + 1 \<le> k \<Longrightarrow> j \<le> k"
    using lt by unat_arith
  show ?case
  proof (cases "nn_bitset_isset numbits (acknack_bits info) j")
    case False
    have "\<forall>k. j + 1 \<le> k \<and> k < numbits
        \<longrightarrow> \<not> scan_stops ext pw numbits (acknack_bits info) base k"
      using Suc.prems up by blast
    from Suc.hyps(1) [OF n this] show ?thesis
      by (simp add: makebitmaps_loop_skip [OF lt False])
  next
    case True
    let ?info1 = "scan_write (snd (scan_answer ext pw base j)) info"
    have v: "fst (scan_answer ext pw base j) = DEFRAG_NACKMAP_UNKNOWN_SAMPLE"
      using Suc.prems lt True by (auto simp add: scan_stops_def)
    have "\<forall>k. j + 1 \<le> k \<and> k < numbits
        \<longrightarrow> \<not> scan_stops ext pw numbits (acknack_bits ?info1) base k"
      using Suc.prems up by (simp add: scan_write_frame)
    from Suc.hyps(1) [OF n this] show ?thesis
      by (simp add: makebitmaps_loop_unknown [OF lt True v] scan_write_frame)
  qed
qed

lemma makebitmaps_loop_stops:
  assumes "j \<le> i" and "i < numbits"
    and "scan_stops ext pw numbits (acknack_bits info) base i"
    and "\<forall>k. j \<le> k \<and> k < i \<longrightarrow> \<not> scan_stops ext pw numbits (acknack_bits info) base k"
  shows "\<exists>info'. acknack_set info' = acknack_set info
    \<and> acknack_bits info' = acknack_bits info
    \<and> nackfrag_seq info' = nackfrag_seq info
    \<and> makebitmaps_loop ext pw numbits base j info = makebitmaps_loop ext pw numbits base i info'"
  using assms
proof (induction "unat i - unat j" arbitrary: j info)
  case 0
  then have "j = i" by unat_arith
  then show ?case by blast
next
  case (Suc n)
  then have ji: "j < i" by unat_arith
  then have lt: "j < numbits" using Suc.prems(2) by simp
  have n: "n = unat i - unat (j + 1)"
    using Suc.hyps(2) loop_index_succ [OF ji] by simp
  have le: "j + 1 \<le> i" using ji by unat_arith
  have up: "\<And>k. j + 1 \<le> k \<Longrightarrow> j \<le> k"
    using lt by unat_arith
  have nj: "\<not> scan_stops ext pw numbits (acknack_bits info) base j"
    using Suc.prems(4) ji by simp
  show ?case
  proof (cases "nn_bitset_isset numbits (acknack_bits info) j")
    case False
    have rest: "\<forall>k. j + 1 \<le> k \<and> k < i
        \<longrightarrow> \<not> scan_stops ext pw numbits (acknack_bits info) base k"
      using Suc.prems(4) up by blast
    from Suc.hyps(1) [OF n le Suc.prems(2) Suc.prems(3) rest] show ?thesis
      by (simp add: makebitmaps_loop_skip [OF lt False])
  next
    case True
    let ?info1 = "scan_write (snd (scan_answer ext pw base j)) info"
    have v: "fst (scan_answer ext pw base j) = DEFRAG_NACKMAP_UNKNOWN_SAMPLE"
      using nj True by (simp add: scan_stops_def)
    have st: "scan_stops ext pw numbits (acknack_bits ?info1) base i"
      using Suc.prems(3) by (simp add: scan_write_frame)
    have rest: "\<forall>k. j + 1 \<le> k \<and> k < i
        \<longrightarrow> \<not> scan_stops ext pw numbits (acknack_bits ?info1) base k"
      using Suc.prems(4) up by (simp add: scan_write_frame)
    from Suc.hyps(1) [OF n le Suc.prems(2) st rest] show ?thesis
      by (simp add: makebitmaps_loop_unknown [OF lt True v] scan_write_frame)
  qed
qed


lemma add_AckNack_makebitmaps_first_pass:
  "add_AckNack_makebitmaps ext pw rm info =
     (let m = first_pass ext pw rm;
          info1 = info\<lparr>acknack_set := fst m, acknack_bits := snd m, nackfrag_seq := 0\<rparr>
      in if sn_numbits (fst m) = 0 then (False, info1)
         else makebitmaps_loop ext pw (sn_numbits (fst m)) (sn_bitmap_base (fst m)) 0 info1)"
  by (simp add: add_AckNack_makebitmaps_def first_pass_def Let_def)

text \<open>
  C3.  Let the reorder buffer produce the set \<open>set0\<close> with the bits \<open>bits\<close>.
  \<^item> If the set is empty, the builder clears \<open>nackfrag.seq\<close> and returns false.
  \<^item> If no set bit has a verdict other than UNKNOWN\_SAMPLE, it returns true with the
    full bitmap and no NackFrag.
  \<^item> If \<open>i\<close> is the first set bit with another verdict and that verdict is
    ALL\_ADVERTISED\_FRAGMENTS\_KNOWN, it cuts the bitmap to length \<open>i\<close>, leaves no
    NackFrag, and returns true exactly when \<open>i > 0\<close>.
  \<^item> If that verdict is FRAGMENTS\_MISSING, it cuts the bitmap to length \<open>i\<close>, records
    \<open>nackfrag.seq = base + i\<close> with the fragment set and bits the defragmenter wrote, and
    returns true.
  In every case the bits are those of the reorder buffer, so the set bits below \<open>i\<close>
  (all of verdict UNKNOWN\_SAMPLE) stay in the sequence NACK.
\<close>

theorem add_AckNack_makebitmaps_scan:
  assumes fp: "first_pass ext pw rm = (set0, bits)"
  shows
    "(sn_numbits set0 = 0 \<longrightarrow>
        add_AckNack_makebitmaps ext pw rm info
          = (False, info\<lparr>acknack_set := set0, acknack_bits := bits, nackfrag_seq := 0\<rparr>))
     \<and> (0 < sn_numbits set0
          \<and> (\<forall>k. k < sn_numbits set0
                 \<longrightarrow> \<not> scan_stops ext pw (sn_numbits set0) bits (sn_bitmap_base set0) k) \<longrightarrow>
        fst (add_AckNack_makebitmaps ext pw rm info)
        \<and> acknack_set (snd (add_AckNack_makebitmaps ext pw rm info)) = set0
        \<and> acknack_bits (snd (add_AckNack_makebitmaps ext pw rm info)) = bits
        \<and> nackfrag_seq (snd (add_AckNack_makebitmaps ext pw rm info)) = 0)
     \<and> (i < sn_numbits set0
          \<and> scan_stops ext pw (sn_numbits set0) bits (sn_bitmap_base set0) i
          \<and> (\<forall>k. k < i
                 \<longrightarrow> \<not> scan_stops ext pw (sn_numbits set0) bits (sn_bitmap_base set0) k)
          \<and> fst (scan_answer ext pw (sn_bitmap_base set0) i)
              = DEFRAG_NACKMAP_ALL_ADVERTISED_FRAGMENTS_KNOWN \<longrightarrow>
        fst (add_AckNack_makebitmaps ext pw rm info) = (0 < i)
        \<and> acknack_set (snd (add_AckNack_makebitmaps ext pw rm info)) = set0\<lparr>sn_numbits := i\<rparr>
        \<and> acknack_bits (snd (add_AckNack_makebitmaps ext pw rm info)) = bits
        \<and> nackfrag_seq (snd (add_AckNack_makebitmaps ext pw rm info)) = 0)
     \<and> (i < sn_numbits set0
          \<and> scan_stops ext pw (sn_numbits set0) bits (sn_bitmap_base set0) i
          \<and> (\<forall>k. k < i
                 \<longrightarrow> \<not> scan_stops ext pw (sn_numbits set0) bits (sn_bitmap_base set0) k)
          \<and> fst (scan_answer ext pw (sn_bitmap_base set0) i)
              = DEFRAG_NACKMAP_FRAGMENTS_MISSING \<longrightarrow>
        fst (add_AckNack_makebitmaps ext pw rm info)
        \<and> acknack_set (snd (add_AckNack_makebitmaps ext pw rm info)) = set0\<lparr>sn_numbits := i\<rparr>
        \<and> acknack_bits (snd (add_AckNack_makebitmaps ext pw rm info)) = bits
        \<and> nackfrag_seq (snd (add_AckNack_makebitmaps ext pw rm info))
            = sn_bitmap_base set0 + ucast i
        \<and> (\<forall>w. snd (scan_answer ext pw (sn_bitmap_base set0) i) = Some w \<longrightarrow>
              nackfrag_set (snd (add_AckNack_makebitmaps ext pw rm info)) = fst w
              \<and> nackfrag_bits (snd (add_AckNack_makebitmaps ext pw rm info)) = snd w))"
proof -
  let ?n = "sn_numbits set0" and ?b = "sn_bitmap_base set0"
  let ?info1 = "info\<lparr>acknack_set := set0, acknack_bits := bits, nackfrag_seq := 0\<rparr>"
  let ?mk = "add_AckNack_makebitmaps ext pw rm info"
  have empty: "?mk = (False, ?info1)" if "?n = 0"
    using that by (simp add: add_AckNack_makebitmaps_first_pass fp)
  have loop: "?mk = makebitmaps_loop ext pw ?n ?b 0 ?info1" if "?n \<noteq> 0"
    using that by (simp add: add_AckNack_makebitmaps_first_pass fp)
  have through: "fst ?mk \<and> acknack_set (snd ?mk) = set0 \<and> acknack_bits (snd ?mk) = bits
      \<and> nackfrag_seq (snd ?mk) = 0"
    if "0 < ?n" and "\<forall>k. k < ?n \<longrightarrow> \<not> scan_stops ext pw ?n bits ?b k"
  proof -
    have "\<forall>k. 0 \<le> k \<and> k < ?n \<longrightarrow> \<not> scan_stops ext pw ?n (acknack_bits ?info1) ?b k"
      using that(2) by simp
    from makebitmaps_loop_runs_through [OF this] loop that(1) show ?thesis
      by simp
  qed
  have stop: "\<exists>info'. acknack_set info' = set0 \<and> acknack_bits info' = bits
      \<and> nn_bitset_isset ?n (acknack_bits info') i
      \<and> ?mk = makebitmaps_loop ext pw ?n ?b i info'"
    if "i < ?n" and "scan_stops ext pw ?n bits ?b i"
      and "\<forall>k. k < i \<longrightarrow> \<not> scan_stops ext pw ?n bits ?b k"
  proof -
    have a: "(0 :: 32 word) \<le> i" by simp
    have b: "scan_stops ext pw ?n (acknack_bits ?info1) ?b i"
      using that(2) by simp
    have c: "\<forall>k. 0 \<le> k \<and> k < i \<longrightarrow> \<not> scan_stops ext pw ?n (acknack_bits ?info1) ?b k"
      using that(3) by simp
    have ne: "?n \<noteq> 0" using that(1) by auto
    from makebitmaps_loop_stops [OF a that(1) b c] loop [OF ne] that(2) show ?thesis
      by (auto simp add: scan_stops_def)
  qed
  have known: "fst ?mk = (0 < i) \<and> acknack_set (snd ?mk) = set0\<lparr>sn_numbits := i\<rparr>
      \<and> acknack_bits (snd ?mk) = bits \<and> nackfrag_seq (snd ?mk) = 0"
    if "i < ?n" and "scan_stops ext pw ?n bits ?b i"
      and "\<forall>k. k < i \<longrightarrow> \<not> scan_stops ext pw ?n bits ?b k"
      and v: "fst (scan_answer ext pw ?b i) = DEFRAG_NACKMAP_ALL_ADVERTISED_FRAGMENTS_KNOWN"
  proof -
    from stop [OF that(1,2,3)] obtain info' where i: "acknack_set info' = set0"
      "acknack_bits info' = bits" "nn_bitset_isset ?n (acknack_bits info') i"
      "?mk = makebitmaps_loop ext pw ?n ?b i info'"
      by blast
    show ?thesis
      unfolding i(4) makebitmaps_loop_all_known [OF that(1) i(3) v]
      by (simp add: scan_write_frame i(1,2))
  qed
  have missing: "fst ?mk \<and> acknack_set (snd ?mk) = set0\<lparr>sn_numbits := i\<rparr>
      \<and> acknack_bits (snd ?mk) = bits \<and> nackfrag_seq (snd ?mk) = ?b + ucast i
      \<and> (\<forall>w. snd (scan_answer ext pw ?b i) = Some w \<longrightarrow>
            nackfrag_set (snd ?mk) = fst w \<and> nackfrag_bits (snd ?mk) = snd w)"
    if "i < ?n" and "scan_stops ext pw ?n bits ?b i"
      and "\<forall>k. k < i \<longrightarrow> \<not> scan_stops ext pw ?n bits ?b k"
      and v: "fst (scan_answer ext pw ?b i) = DEFRAG_NACKMAP_FRAGMENTS_MISSING"
  proof -
    from stop [OF that(1,2,3)] obtain info' where i: "acknack_set info' = set0"
      "acknack_bits info' = bits" "nn_bitset_isset ?n (acknack_bits info') i"
      "?mk = makebitmaps_loop ext pw ?n ?b i info'"
      by blast
    show ?thesis
      unfolding i(4) makebitmaps_loop_missing [OF that(1) i(3) v]
      by (simp add: scan_write_frame i(1,2)) (simp add: scan_write_def)
  qed
  from empty through known missing show ?thesis
    by blast
qed


text \<open>
  The four cases at concrete inputs: nothing missing; samples 10 and 12 missing and
  unknown to the defragmenter; sample 12 fully known (cut at index 2); sample 10 with
  fragments missing (cut at index 0, NackFrag for sample 10).
\<close>

lemma word_less_2_cases: "(k :: 32 word) < 2 \<Longrightarrow> k = 0 \<or> k = 1"
  by unat_arith

theorem add_AckNack_makebitmaps_scan_witness:
  "add_AckNack_makebitmaps ext_empty pwr_ex rwn_ex uninit_info
     = (False, uninit_info\<lparr>acknack_set := \<lparr>sn_bitmap_base = 10, sn_numbits = 0\<rparr>,
                          acknack_bits := replicate 8 0, nackfrag_seq := 0\<rparr>)
   \<and> (fst (add_AckNack_makebitmaps ext_ex pwr_ex rwn_ex uninit_info)
      \<and> acknack_set (snd (add_AckNack_makebitmaps ext_ex pwr_ex rwn_ex uninit_info))
          = \<lparr>sn_bitmap_base = 10, sn_numbits = 3\<rparr>
      \<and> nackfrag_seq (snd (add_AckNack_makebitmaps ext_ex pwr_ex rwn_ex uninit_info)) = 0)
   \<and> (fst (add_AckNack_makebitmaps ext_known pwr_ex rwn_ex uninit_info)
      \<and> acknack_set (snd (add_AckNack_makebitmaps ext_known pwr_ex rwn_ex uninit_info))
          = \<lparr>sn_bitmap_base = 10, sn_numbits = 2\<rparr>
      \<and> nackfrag_seq (snd (add_AckNack_makebitmaps ext_known pwr_ex rwn_ex uninit_info)) = 0)
   \<and> (fst (add_AckNack_makebitmaps ext_frag pwr_ex rwn_ex uninit_info)
      \<and> acknack_set (snd (add_AckNack_makebitmaps ext_frag pwr_ex rwn_ex uninit_info))
          = \<lparr>sn_bitmap_base = 10, sn_numbits = 0\<rparr>
      \<and> nackfrag_seq (snd (add_AckNack_makebitmaps ext_frag pwr_ex rwn_ex uninit_info)) = 10
      \<and> nackfrag_set (snd (add_AckNack_makebitmaps ext_frag pwr_ex rwn_ex uninit_info))
          = \<lparr>fn_bitmap_base = 1, fn_numbits = 4\<rparr>)"
proof -
  let ?z = "[0, 0, 0, 0, 0, 0, 0, 0 :: 32 word]"
  let ?s3 = "\<lparr>sn_bitmap_base = 10, sn_numbits = 3\<rparr>"
  have fp_empty: "first_pass ext_empty pwr_ex rwn_ex
      = (\<lparr>sn_bitmap_base = 10, sn_numbits = 0\<rparr>, replicate 8 0)"
    and fp_ex: "first_pass ext_ex pwr_ex rwn_ex = (?s3, 0xA0000000 # tl ?z)"
    and fp_known: "first_pass ext_known pwr_ex rwn_ex = (?s3, 0xA0000000 # tl ?z)"
    and fp_frag: "first_pass ext_frag pwr_ex rwn_ex = (?s3, 0xE0000000 # tl ?z)"
    by code_simp+
  have p1: "add_AckNack_makebitmaps ext_empty pwr_ex rwn_ex uninit_info
     = (False, uninit_info\<lparr>acknack_set := \<lparr>sn_bitmap_base = 10, sn_numbits = 0\<rparr>,
                          acknack_bits := replicate 8 0, nackfrag_seq := 0\<rparr>)"
    using add_AckNack_makebitmaps_scan [OF fp_empty, of uninit_info 0] by simp
  have "\<forall>k. k < sn_numbits ?s3 \<longrightarrow>
      \<not> scan_stops ext_ex pwr_ex (sn_numbits ?s3) (0xA0000000 # tl ?z) (sn_bitmap_base ?s3) k"
    by (simp add: scan_stops_def scan_answer_def ext_ex_def)
  then have p2: "fst (add_AckNack_makebitmaps ext_ex pwr_ex rwn_ex uninit_info)
      \<and> acknack_set (snd (add_AckNack_makebitmaps ext_ex pwr_ex rwn_ex uninit_info)) = ?s3
      \<and> nackfrag_seq (snd (add_AckNack_makebitmaps ext_ex pwr_ex rwn_ex uninit_info)) = 0"
    using add_AckNack_makebitmaps_scan [OF fp_ex, of uninit_info 0] by simp
  have s0: "\<not> scan_stops ext_known pwr_ex 3 (0xA0000000 # tl ?z) 10 0"
    and s1: "\<not> scan_stops ext_known pwr_ex 3 (0xA0000000 # tl ?z) 10 1"
    and s2: "scan_stops ext_known pwr_ex 3 (0xA0000000 # tl ?z) 10 2"
    and v2: "fst (scan_answer ext_known pwr_ex 10 2)
      = DEFRAG_NACKMAP_ALL_ADVERTISED_FRAGMENTS_KNOWN"
    by code_simp+
  have "\<forall>k. k < 2 \<longrightarrow> \<not> scan_stops ext_known pwr_ex 3 (0xA0000000 # tl ?z) 10 k"
    using s0 s1 word_less_2_cases by blast
  then have p3: "fst (add_AckNack_makebitmaps ext_known pwr_ex rwn_ex uninit_info)
      \<and> acknack_set (snd (add_AckNack_makebitmaps ext_known pwr_ex rwn_ex uninit_info))
          = \<lparr>sn_bitmap_base = 10, sn_numbits = 2\<rparr>
      \<and> nackfrag_seq (snd (add_AckNack_makebitmaps ext_known pwr_ex rwn_ex uninit_info)) = 0"
    using add_AckNack_makebitmaps_scan [OF fp_known, of uninit_info 2] s2 v2 by simp
  have f0: "scan_stops ext_frag pwr_ex 3 (0xE0000000 # tl ?z) 10 0"
    and fv: "scan_answer ext_frag pwr_ex 10 0
      = (DEFRAG_NACKMAP_FRAGMENTS_MISSING,
         Some (\<lparr>fn_bitmap_base = 1, fn_numbits = 4\<rparr>, 0x90000000 # tl ?z))"
    by code_simp+
  have p4: "fst (add_AckNack_makebitmaps ext_frag pwr_ex rwn_ex uninit_info)
      \<and> acknack_set (snd (add_AckNack_makebitmaps ext_frag pwr_ex rwn_ex uninit_info))
          = \<lparr>sn_bitmap_base = 10, sn_numbits = 0\<rparr>
      \<and> nackfrag_seq (snd (add_AckNack_makebitmaps ext_frag pwr_ex rwn_ex uninit_info)) = 10
      \<and> nackfrag_set (snd (add_AckNack_makebitmaps ext_frag pwr_ex rwn_ex uninit_info))
          = \<lparr>fn_bitmap_base = 1, fn_numbits = 4\<rparr>"
    using add_AckNack_makebitmaps_scan [OF fp_frag, of uninit_info 0] f0 fv by simp
  from p1 p2 p3 p4 show ?thesis by (intro conjI) blast+
qed


section \<open>The decision\<close>

text \<open>
  With NACK material, \<open>get_AckNack_info\<close> written out on the region \<open>ns\<close> and the
  \<open>info\<close> that \<open>add_AckNack_makebitmaps\<close> leaves.
\<close>

lemma get_AckNack_info_nack_material:
  assumes "fst (add_AckNack_makebitmaps ext pw rm info0)"
    and "info = snd (add_AckNack_makebitmaps ext pw rm info0)"
    and "ns = nack_region info"
  shows "get_AckNack_info ext pw rm info0 ackdelay_passed nackdelay_passed =
    (let r1 =
       (if seq_end_p1 (last_nack rm) <s seq_base ns
           \<or> (seq_base ns = seq_end_p1 (last_nack rm)
               \<and> frag_end_p1 (last_nack rm) \<le> frag_base ns)
        then (AANR_NACK, ns, info\<lparr>info_nack_sent_on_nackdelay := False\<rparr>)
        else if directed_heartbeat rm \<and> (\<not> nack_sent_on_nackdelay rm \<or> nackdelay_passed)
        then (AANR_NACK, ns, info\<lparr>info_nack_sent_on_nackdelay := False\<rparr>)
        else if nackdelay_passed
        then (AANR_NACK, ns, info\<lparr>info_nack_sent_on_nackdelay := True\<rparr>)
        else (AANR_SUPPRESSED_NACK, ns,
              info\<lparr>info_nack_sent_on_nackdelay := nack_sent_on_nackdelay rm,
                   acknack_set := (acknack_set info)\<lparr>sn_numbits := 0\<rparr>,
                   nackfrag_seq := 0\<rparr>))
     in ((if fst r1 = AANR_ACK \<or> fst r1 = AANR_SUPPRESSED_NACK then
            (if \<not> (heartbeat_since_ack rm \<and> ack_requested rm) then AANR_SUPPRESSED_ACK
             else if \<not> (seq_base (last_nack rm) <s seq_base (fst (snd r1))
                           \<or> ackdelay_passed)
             then AANR_SUPPRESSED_ACK
             else fst r1)
          else if sn_numbits (acknack_set (snd (snd r1))) = 0
                  \<and> 0 <s nackfrag_seq (snd (snd r1)) \<and> \<not> ack_requested rm
          then AANR_NACKFRAG_ONLY
          else fst r1),
         fst (snd r1), snd (snd r1)))"
proof -
  have sb: "seq_base ns = sn_bitmap_base (acknack_set info)"
    and fb: "frag_base ns
      = (if 0 <s nackfrag_seq info then fn_bitmap_base (nackfrag_set info) else 0)"
    by (simp_all add: assms(3) nack_region_def)
  show ?thesis
    using assms(1)
    unfolding get_AckNack_info_def assms(2) [symmetric] Let_def sb fb assms(3) nack_region_def
    by simp
qed

text \<open>
  C1.  Whenever the bitmap builder produced NACK material, \<open>get_AckNack_info\<close> returns
  what the three steps of the specification give: NACK when the region advanced, else
  NACK on a directed heartbeat when no NACK was sent on the delay or the delay has
  passed, else NACK when the delay has passed (recording that it was sent on the
  delay), else SUPPRESSED\_NACK with the bitmap cleared to a pure ACK; then the pure-ACK
  gating of a SUPPRESSED\_NACK, and NACKFRAG\_ONLY for an empty sequence bitmap with
  fragments to NACK and no ack requested.  The summary returned is the region.
\<close>

theorem get_AckNack_info_classifies:
  assumes "fst (add_AckNack_makebitmaps ext pw rm info0)"
  shows "get_AckNack_info ext pw rm info0 ackdelay_passed nackdelay_passed =
    (let info = snd (add_AckNack_makebitmaps ext pw rm info0);
         ns = nack_region info;
         s1 = spec_step1 rm nackdelay_passed ns info
     in (spec_step3 rm (snd s1) (spec_step2 rm ackdelay_passed ns (fst s1)), ns, snd s1))"
  unfolding get_AckNack_info_nack_material [OF assms refl refl] Let_def
  by (simp add: spec_step1_def spec_step2_def spec_step3_def spec_region_advanced_def)

text \<open>
  On the example state (samples 10 and 12 missing, nothing NACKed before) the result
  is a NACK of the region 10..13.
\<close>

theorem get_AckNack_info_classifies_witness:
  "get_AckNack_info ext_ex pwr_ex rwn_ex uninit_info True True =
     (AANR_NACK,
      \<lparr>seq_base = 10, seq_end_p1 = 13, frag_base = 0, frag_end_p1 = 0\<rparr>,
      uninit_info\<lparr>acknack_set := \<lparr>sn_bitmap_base = 10, sn_numbits = 3\<rparr>,
                  acknack_bits := [0xA0000000, 0, 0, 0, 0, 0, 0, 0]\<rparr>)"
proof -
  have mb: "add_AckNack_makebitmaps ext_ex pwr_ex rwn_ex uninit_info =
     (True, uninit_info\<lparr>acknack_set := \<lparr>sn_bitmap_base = 10, sn_numbits = 3\<rparr>,
                        acknack_bits := [0xA0000000, 0, 0, 0, 0, 0, 0, 0]\<rparr>)"
    by code_simp
  then have h: "fst (add_AckNack_makebitmaps ext_ex pwr_ex rwn_ex uninit_info)"
    by simp
  show ?thesis
    unfolding get_AckNack_info_classifies [OF h] mb
    by (simp add: Let_def spec_step1_def spec_step2_def spec_step3_def
        spec_region_advanced_def nack_region_def rwn_ex_def uninit_info_def word_sless_alt)
qed

text \<open>
  An overlapping region before the NACK delay does not always give SUPPRESSED\_NACK.  The region \<open>{10, 10, 1, 5}\<close> equals the last NACK and
  the delay (100 from time 40) has not passed at time 50; yet with a directed heartbeat
  and an ack requested the result is NACK, and with no heartbeat since the last ack it
  is SUPPRESSED\_ACK.
\<close>

theorem overlap_not_always_suppressed_nack:
  "fst (add_AckNack_makebitmaps ext_frag pwr_ex
          (rwn_overlap\<lparr>directed_heartbeat := True, ack_requested := True\<rparr>) uninit_info)
   \<and> nack_region (snd (add_AckNack_makebitmaps ext_frag pwr_ex
          (rwn_overlap\<lparr>directed_heartbeat := True, ack_requested := True\<rparr>) uninit_info))
       = \<lparr>seq_base = 10, seq_end_p1 = 10, frag_base = 1, frag_end_p1 = 5\<rparr>
   \<and> \<not> ddsrt_mtime_add_duration (t_last_nack rwn_overlap) (nack_delay (gv_config pwr_ex)) \<le> 50
   \<and> fst (acknack_decision ext_frag 50
          (st_ex\<lparr>rwn := rwn_overlap\<lparr>directed_heartbeat := True, ack_requested := True\<rparr>\<rparr>))
       = AANR_NACK
   \<and> fst (add_AckNack_makebitmaps ext_frag pwr_ex rwn_overlap uninit_info)
   \<and> nack_region (snd (add_AckNack_makebitmaps ext_frag pwr_ex rwn_overlap uninit_info))
       = \<lparr>seq_base = 10, seq_end_p1 = 10, frag_base = 1, frag_end_p1 = 5\<rparr>
   \<and> fst (acknack_decision ext_frag 50 (st_ex\<lparr>rwn := rwn_overlap\<rparr>)) = AANR_SUPPRESSED_ACK"
  by code_simp

text \<open>
  C5, amended.  For a decision with NACK material whose region starts where the last
  NACK ended (\<open>seq_base = last_nack.seq_end_p1\<close>, \<open>frag_base < last_nack.frag_end_p1\<close>),
  before the NACK delay has passed, and with no directed heartbeat that allows an
  immediate NACK (not: \<open>directed_heartbeat\<close> and not \<open>nack_sent_on_nackdelay\<close>), the NACK
  is suppressed and the bitmap cleared; the result is SUPPRESSED\_NACK when a heartbeat
  came since the last ack, an ack is requested and the base moved or the ack delay
  passed, and SUPPRESSED\_ACK otherwise.
\<close>

theorem get_AckNack_info_overlap:
  assumes "fst (add_AckNack_makebitmaps ext pw rm info0)"
    and "ns = nack_region (snd (add_AckNack_makebitmaps ext pw rm info0))"
    and "seq_base ns = seq_end_p1 (last_nack rm)"
    and "frag_base ns < frag_end_p1 (last_nack rm)"
    and "\<not> nackdelay_passed"
    and "\<not> (directed_heartbeat rm \<and> \<not> nack_sent_on_nackdelay rm)"
  shows "fst (get_AckNack_info ext pw rm info0 ackdelay_passed nackdelay_passed) =
      (if heartbeat_since_ack rm \<and> ack_requested rm
          \<and> (seq_base (last_nack rm) <s seq_base ns \<or> ackdelay_passed)
       then AANR_SUPPRESSED_NACK else AANR_SUPPRESSED_ACK)
    \<and> sn_numbits (acknack_set
          (snd (snd (get_AckNack_info ext pw rm info0 ackdelay_passed nackdelay_passed)))) = 0
    \<and> nackfrag_seq
          (snd (snd (get_AckNack_info ext pw rm info0 ackdelay_passed nackdelay_passed))) = 0"
proof -
  have na: "\<not> (seq_end_p1 (last_nack rm) <s seq_base ns
           \<or> (seq_base ns = seq_end_p1 (last_nack rm)
               \<and> frag_end_p1 (last_nack rm) \<le> frag_base ns))"
    using assms(3,4) by (simp add: word_sless_alt)
  show ?thesis
    unfolding get_AckNack_info_nack_material [OF assms(1) refl assms(2)] Let_def
    using na assms(5,6) by auto
qed

text \<open>Both outcomes on the match that has already NACKed the fragments.\<close>

theorem get_AckNack_info_overlap_witness:
  "fst (get_AckNack_info ext_frag pwr_ex
          (rwn_overlap\<lparr>heartbeat_since_ack := True, ack_requested := True\<rparr>)
          uninit_info True False) = AANR_SUPPRESSED_NACK
   \<and> fst (get_AckNack_info ext_frag pwr_ex rwn_overlap uninit_info True False)
       = AANR_SUPPRESSED_ACK"
proof -
  let ?rm = "rwn_overlap\<lparr>heartbeat_since_ack := True, ack_requested := True\<rparr>"
  let ?ns = "\<lparr>seq_base = 10, seq_end_p1 = 10, frag_base = 1, frag_end_p1 = 5\<rparr>"
  have h1: "fst (add_AckNack_makebitmaps ext_frag pwr_ex ?rm uninit_info)"
    and h1': "fst (add_AckNack_makebitmaps ext_frag pwr_ex rwn_overlap uninit_info)"
    by code_simp+
  have h2: "?ns = nack_region (snd (add_AckNack_makebitmaps ext_frag pwr_ex ?rm uninit_info))"
    and h2': "?ns = nack_region (snd (add_AckNack_makebitmaps ext_frag pwr_ex rwn_overlap uninit_info))"
    by code_simp+
  have h3: "seq_base ?ns = seq_end_p1 (last_nack ?rm)"
    and h3': "seq_base ?ns = seq_end_p1 (last_nack rwn_overlap)"
    by (simp_all add: rwn_overlap_def)
  have h4: "frag_base ?ns < frag_end_p1 (last_nack ?rm)"
    and h4': "frag_base ?ns < frag_end_p1 (last_nack rwn_overlap)"
    by (simp_all add: rwn_overlap_def)
  have h5: "\<not> False" by simp
  have h6: "\<not> (directed_heartbeat ?rm \<and> \<not> nack_sent_on_nackdelay ?rm)"
    and h6': "\<not> (directed_heartbeat rwn_overlap \<and> \<not> nack_sent_on_nackdelay rwn_overlap)"
    by (simp_all add: rwn_overlap_def rwn_ex_def)
  note a = get_AckNack_info_overlap [OF h1 h2 h3 h4 h5 h6, of True, THEN conjunct1]
  note b = get_AckNack_info_overlap [OF h1' h2' h3' h4' h5 h6', of True, THEN conjunct1]
  show ?thesis
    unfolding a b by (simp add: rwn_overlap_def rwn_ex_def)
qed


section \<open>The committer\<close>

text \<open>
  Past the two early returns and the allocation, \<open>make_and_resched_acknack\<close> is the
  assembly of the message followed by the test of its size.
\<close>

lemma acknack_assemble_rwn:
  "snd (acknack_assemble ext pw rm aanr info msg0) =
     (if meas_hb_to_ack_latency (gv_config pw) \<and> hb_timestamp rm \<noteq> 0
      then rm\<lparr>hb_timestamp := 0\<rparr> else rm)"
  by (simp add: acknack_assemble_def Let_def)

lemma acknack_participant_clear_flags:
  "acknack_participant ext pw (acknack_clear_flags rm info) = acknack_participant ext pw rm"
  by (simp add: acknack_participant_def acknack_clear_flags_def)

lemma make_and_resched_acknack_committed:
  assumes "acknack_decision ext tnow st = (aanr, ns, info)"
    and "aanr \<noteq> AANR_SUPPRESSED_ACK"
    and "\<not> (avoid \<and> aanr = AANR_SUPPRESSED_NACK)"
    and "nn_xmsg_new ext (rd_guid (rwn st)) (acknack_participant ext (pwr st) (rwn st))
           = Some msg0"
    and "acknack_assemble ext (pwr st) (acknack_clear_flags (rwn st) info) aanr info msg0
           = (msg, rm1)"
  shows "make_and_resched_acknack ext tnow avoid st =
    (if nn_xmsg_size msg = 0 then (st\<lparr>rwn := rm1\<rparr>, None)
     else (acknack_commit tnow aanr ns
             (st\<lparr>xmsgpool_live := Suc (xmsgpool_live st), rwn := rm1\<rparr>), Some msg))"
proof -
  have g: "rd_guid (acknack_clear_flags (rwn st) info) = rd_guid (rwn st)"
    by (simp add: acknack_clear_flags_def)
  have c: "(aanr = AANR_SUPPRESSED_ACK) = False"
    "(avoid \<and> aanr = AANR_SUPPRESSED_NACK) = False"
    using assms(2,3) by simp_all
  show ?thesis
    by (simp add: make_and_resched_acknack_def assms(1) Let_def g c
        acknack_participant_clear_flags assms(4) assms(5))
qed

text \<open>
  C9.  In a commit cycle (the decision is neither SUPPRESSED\_ACK nor an avoided
  SUPPRESSED\_NACK, and the message was allocated) in which the security hook leaves
  the assembled message with size 0, the committer returns no message and frees the
  one it allocated (the pool has as many live messages as before); \<open>count\<close>,
  \<open>last_nack\<close>, \<open>t_last_ack\<close> and \<open>t_last_nack\<close> of the match, the proxy writer and the
  event are unchanged; and the flags cleared before the allocation stay cleared, with
  \<open>nack_sent_on_nackdelay\<close> at the value the decision proposed.
\<close>

theorem security_drop_keeps_nack_state:
  assumes d: "acknack_decision ext tnow st = (aanr, ns, info)"
    and c1: "aanr \<noteq> AANR_SUPPRESSED_ACK"
    and c2: "\<not> (avoid \<and> aanr = AANR_SUPPRESSED_NACK)"
    and new: "nn_xmsg_new ext (rd_guid (rwn st)) (acknack_participant ext (pwr st) (rwn st))
           = Some msg0"
    and drop: "nn_xmsg_size
           (fst (acknack_assemble ext (pwr st) (acknack_clear_flags (rwn st) info)
                   aanr info msg0)) = 0"
    and res: "make_and_resched_acknack ext tnow avoid st = (st', r)"
  shows "r = None
    \<and> xmsgpool_live st' = xmsgpool_live st
    \<and> count (rwn st') = count (rwn st)
    \<and> last_nack (rwn st') = last_nack (rwn st)
    \<and> t_last_ack (rwn st') = t_last_ack (rwn st)
    \<and> t_last_nack (rwn st') = t_last_nack (rwn st)
    \<and> \<not> directed_heartbeat (rwn st')
    \<and> \<not> heartbeat_since_ack (rwn st')
    \<and> \<not> heartbeatfrag_since_ack (rwn st')
    \<and> nack_sent_on_nackdelay (rwn st') = info_nack_sent_on_nackdelay info
    \<and> pwr st' = pwr st
    \<and> ev st' = ev st"
proof -
  obtain msg rm1 where a: "acknack_assemble ext (pwr st) (acknack_clear_flags (rwn st) info)
      aanr info msg0 = (msg, rm1)"
    by (cases "acknack_assemble ext (pwr st) (acknack_clear_flags (rwn st) info)
      aanr info msg0")
  have z: "nn_xmsg_size msg = 0" using drop a by simp
  have rm1: "rm1 = (if meas_hb_to_ack_latency (gv_config (pwr st))
                       \<and> hb_timestamp (acknack_clear_flags (rwn st) info) \<noteq> 0
                    then (acknack_clear_flags (rwn st) info)\<lparr>hb_timestamp := 0\<rparr>
                    else acknack_clear_flags (rwn st) info)"
    using acknack_assemble_rwn [of ext "pwr st" "acknack_clear_flags (rwn st) info" aanr info msg0]
    by (simp add: a)
  have "(st', r) = (st\<lparr>rwn := rm1\<rparr>, None)"
    using make_and_resched_acknack_committed [OF d c1 c2 new a] res z by simp
  then have st': "st' = st\<lparr>rwn := rm1\<rparr>" and r: "r = None" by simp_all
  show ?thesis
    unfolding st' r rm1 by (simp add: acknack_clear_flags_def)
qed

text \<open>
  The example: a NACK is due, the security layer drops the AckNack, and only the
  heartbeat flags of the match have changed.
\<close>

theorem security_drop_keeps_nack_state_witness:
  "snd (make_and_resched_acknack ext_drop 50 False st_hb) = None
   \<and> xmsgpool_live (fst (make_and_resched_acknack ext_drop 50 False st_hb)) = 0
   \<and> count (rwn (fst (make_and_resched_acknack ext_drop 50 False st_hb))) = 7
   \<and> last_nack (rwn (fst (make_and_resched_acknack ext_drop 50 False st_hb)))
       = \<lparr>seq_base = 0, seq_end_p1 = 0, frag_base = 0, frag_end_p1 = 0\<rparr>
   \<and> t_last_nack (rwn (fst (make_and_resched_acknack ext_drop 50 False st_hb))) = 0
   \<and> \<not> directed_heartbeat (rwn (fst (make_and_resched_acknack ext_drop 50 False st_hb)))
   \<and> \<not> heartbeat_since_ack (rwn (fst (make_and_resched_acknack ext_drop 50 False st_hb)))"
proof -
  let ?info = "uninit_info\<lparr>acknack_set := \<lparr>sn_bitmap_base = 10, sn_numbits = 3\<rparr>,
                  acknack_bits := [0xA0000000, 0, 0, 0, 0, 0, 0, 0]\<rparr>"
  let ?msg0 = "\<lparr>xmsg_rd_guid = rd_guid rwn_ex, xmsg_pp = None, xmsg_dst_pwr = None,
                xmsg_submsgs = []\<rparr>"
  obtain st' r where res: "make_and_resched_acknack ext_drop 50 False st_hb = (st', r)"
    by (cases "make_and_resched_acknack ext_drop 50 False st_hb")
  have d: "acknack_decision ext_drop 50 st_hb
      = (AANR_NACK, \<lparr>seq_base = 10, seq_end_p1 = 13, frag_base = 0, frag_end_p1 = 0\<rparr>, ?info)"
    by code_simp
  have c1: "AANR_NACK \<noteq> AANR_SUPPRESSED_ACK" by simp
  have c2: "\<not> (False \<and> AANR_NACK = AANR_SUPPRESSED_NACK)" by simp
  have new: "nn_xmsg_new ext_drop (rd_guid (rwn st_hb))
           (acknack_participant ext_drop (pwr st_hb) (rwn st_hb)) = Some ?msg0"
    by code_simp
  have drop: "nn_xmsg_size
           (fst (acknack_assemble ext_drop (pwr st_hb) (acknack_clear_flags (rwn st_hb) ?info)
                   AANR_NACK ?info ?msg0)) = 0"
    by code_simp
  note t = security_drop_keeps_nack_state [OF d c1 c2 new drop res]
  show ?thesis
    unfolding res fst_conv snd_conv using t
    by (simp add: st_hb_def st_ex_def rwn_ex_def)
qed


text \<open>The decision without NACK material, and the commit of a pure ACK.\<close>

lemma get_AckNack_info_no_material:
  assumes "\<not> fst (add_AckNack_makebitmaps ext pw rm info0)"
    and "info = snd (add_AckNack_makebitmaps ext pw rm info0)"
  shows "get_AckNack_info ext pw rm info0 ackdelay_passed nackdelay_passed =
    ((if heartbeat_since_ack rm \<and> ack_requested rm
         \<and> (seq_base (last_nack rm) <s sn_bitmap_base (acknack_set info) \<or> ackdelay_passed)
      then AANR_ACK else AANR_SUPPRESSED_ACK),
     \<lparr>seq_base = sn_bitmap_base (acknack_set info), seq_end_p1 = 0,
      frag_base = 0, frag_end_p1 = 0\<rparr>,
     info\<lparr>info_nack_sent_on_nackdelay := nack_sent_on_nackdelay rm\<rparr>)"
  using assms(1) unfolding get_AckNack_info_def assms(2) [symmetric] Let_def
  by simp

lemma acknack_commit_ACK:
  "acknack_commit tnow AANR_ACK ns st =
     st\<lparr>rwn := (rwn st)\<lparr>count := count (rwn st) + 1, ack_requested := False,
                          t_last_ack := tnow,
                          last_nack := (last_nack (rwn st))\<lparr>seq_base := seq_base ns\<rparr>\<rparr>\<rparr>"
  by (simp add: acknack_commit_def Let_def)

text \<open>
  The wire count in scenario S2 is not the count of the match after the emission.  In
  the scenario, with the count of the match at 7, the AckNack carries 7 and the match
  is left at 8: \<open>add_AckNack\<close> writes \<open>rwn->count\<close> and the increment comes
  after the message is assembled.
\<close>

theorem pure_ack_count_is_not_incremented_value:
  "heartbeat_since_ack (rwn st_s2) \<and> ack_requested (rwn st_s2)
   \<and> ddsrt_mtime_add_duration (t_last_ack (rwn st_s2)) (ack_delay (gv_config (pwr st_s2))) \<le> 50
   \<and> nn_reorder_next_seq ext_s2 (reorder (pwr st_s2)) = 1
   \<and> fst (first_pass ext_s2 (pwr st_s2) (rwn st_s2)) = \<lparr>sn_bitmap_base = 1, sn_numbits = 0\<rparr>
   \<and> count (rwn st_s2) = 7
   \<and> snd (make_and_resched_acknack ext_s2 50 False st_s2) =
       Some \<lparr>xmsg_rd_guid = \<lparr>prefix = 2, entityid = 0x107\<rparr>,
             xmsg_pp = None,
             xmsg_dst_pwr = Some \<lparr>prefix = 1, entityid = 0x102\<rparr>,
             xmsg_submsgs =
               [SM_ACKNACK
                  \<lparr>an_final = True, an_readerId = 0x107, an_writerId = 0x102,
                   an_readerSNState = \<lparr>sn_bitmap_base = 1, sn_numbits = 0\<rparr>,
                   an_bits = [], an_count = 7\<rparr>]\<rparr>
   \<and> (7 :: nn_count_t) \<noteq> count (rwn st_s2) + 1
   \<and> count (rwn (fst (make_and_resched_acknack ext_s2 50 False st_s2))) = 8"
  by code_simp

text \<open>
  C4, amended.  In scenario S2 (a heartbeat since the last ack, an ack requested, the
  ack delay passed, the reorder buffer reporting base 1 and no bits), with the message
  allocated and no security transformation, the committer emits a message whose
  submessages are an AckNack (after the INFO\_TS, when a heartbeat timestamp is
  attached) with \<open>bitmap_base = 1\<close>, \<open>numbits = 0\<close> and \<open>count\<close> the count of the match
  before the emission, and no NackFrag; afterwards the count of the match is one more,
  \<open>ack_requested\<close> is false and \<open>t_last_ack = tnow\<close>.
\<close>

theorem pure_ack_wire_fields:
  assumes hb: "heartbeat_since_ack (rwn st)" and ar: "ack_requested (rwn st)"
    and ad: "ddsrt_mtime_add_duration (t_last_ack (rwn st)) (ack_delay (gv_config (pwr st)))
               \<le> tnow"
    and fp: "fst (first_pass ext (pwr st) (rwn st)) = \<lparr>sn_bitmap_base = 1, sn_numbits = 0\<rparr>"
    and ok: "nn_xmsg_new_ok ext"
    and nosec: "encode_datareader_submsg ext = (\<lambda>msg marker pg rg. msg)"
  shows "map_option xmsg_submsgs (snd (make_and_resched_acknack ext tnow avoid st)) =
      Some ((if meas_hb_to_ack_latency (gv_config (pwr st)) \<and> hb_timestamp (rwn st) \<noteq> 0
             then [SM_INFO_TS (hb_timestamp (rwn st))] else [])
            @ [SM_ACKNACK
                 \<lparr>an_final = True,
                  an_readerId = entityid (rd_guid (rwn st)),
                  an_writerId = entityid (guid (pwr st)),
                  an_readerSNState = \<lparr>sn_bitmap_base = 1, sn_numbits = 0\<rparr>,
                  an_bits = [],
                  an_count = count (rwn st)\<rparr>])
    \<and> count (rwn (fst (make_and_resched_acknack ext tnow avoid st))) = count (rwn st) + 1
    \<and> \<not> ack_requested (rwn (fst (make_and_resched_acknack ext tnow avoid st)))
    \<and> t_last_ack (rwn (fst (make_and_resched_acknack ext tnow avoid st))) = tnow"
proof -
  let ?mb = "add_AckNack_makebitmaps ext (pwr st) (rwn st) uninit_info"
  define info where "info = (snd ?mb)\<lparr>info_nack_sent_on_nackdelay := nack_sent_on_nackdelay (rwn st)\<rparr>"
  define ns where "ns = \<lparr>seq_base = sn_bitmap_base (acknack_set (snd ?mb)), seq_end_p1 = 0,
      frag_base = (0 :: 32 word), frag_end_p1 = (0 :: 32 word)\<rparr>"
  define msg0 where "msg0 = \<lparr>xmsg_rd_guid = rd_guid (rwn st),
      xmsg_pp = acknack_participant ext (pwr st) (rwn st),
      xmsg_dst_pwr = None, xmsg_submsgs = []\<rparr>"
  have mb: "?mb = (False, uninit_info\<lparr>acknack_set := \<lparr>sn_bitmap_base = 1, sn_numbits = 0\<rparr>,
      acknack_bits := snd (first_pass ext (pwr st) (rwn st)), nackfrag_seq := 0\<rparr>)"
    by (simp add: add_AckNack_makebitmaps_first_pass Let_def fp)
  have d: "acknack_decision ext tnow st = (AANR_ACK, ns, info)"
    unfolding acknack_decision_def Let_def
    by (subst get_AckNack_info_no_material [OF _ refl])
      (simp_all add: mb hb ar ad ns_def info_def)
  have i: "acknack_set info = \<lparr>sn_bitmap_base = 1, sn_numbits = 0\<rparr>" "nackfrag_seq info = 0"
    by (simp_all add: info_def mb)
  have new: "nn_xmsg_new ext (rd_guid (rwn st)) (acknack_participant ext (pwr st) (rwn st))
      = Some msg0"
    by (simp add: nn_xmsg_new_def ok msg0_def)
  obtain msg rm1 where a: "acknack_assemble ext (pwr st) (acknack_clear_flags (rwn st) info)
      AANR_ACK info msg0 = (msg, rm1)"
    by (cases "acknack_assemble ext (pwr st) (acknack_clear_flags (rwn st) info)
      AANR_ACK info msg0")
  have sub: "xmsg_submsgs msg =
      (if meas_hb_to_ack_latency (gv_config (pwr st)) \<and> hb_timestamp (rwn st) \<noteq> 0
       then [SM_INFO_TS (hb_timestamp (rwn st))] else [])
      @ [SM_ACKNACK
           \<lparr>an_final = True,
            an_readerId = entityid (rd_guid (rwn st)),
            an_writerId = entityid (guid (pwr st)),
            an_readerSNState = \<lparr>sn_bitmap_base = 1, sn_numbits = 0\<rparr>,
            an_bits = [],
            an_count = count (rwn st)\<rparr>]"
    using a [symmetric]
    by (simp add: acknack_assemble_def Let_def add_AckNack_def nosec i msg0_def
        nn_xmsg_setdstPWR_def nn_xmsg_add_timestamp_def acknack_clear_flags_def
        set_bits_words_def)
  have "rm1 = snd (acknack_assemble ext (pwr st) (acknack_clear_flags (rwn st) info)
      AANR_ACK info msg0)"
    by (simp add: a)
  then have rm1: "count rm1 = count (rwn st)"
    unfolding acknack_assemble_rwn by (simp add: acknack_clear_flags_def)
  have nz: "nn_xmsg_size msg \<noteq> 0"
    by (simp add: nn_xmsg_size_def sub)
  have c1: "AANR_ACK \<noteq> AANR_SUPPRESSED_ACK" by simp
  have c2: "\<not> (avoid \<and> AANR_ACK = AANR_SUPPRESSED_NACK)" by simp
  have "make_and_resched_acknack ext tnow avoid st =
      (acknack_commit tnow AANR_ACK ns
         (st\<lparr>xmsgpool_live := Suc (xmsgpool_live st), rwn := rm1\<rparr>), Some msg)"
    using make_and_resched_acknack_committed [OF d c1 c2 new a] nz by simp
  then show ?thesis
    by (simp add: acknack_commit_ACK sub rm1)
qed

text \<open>The scenario itself, at time 50.\<close>

theorem pure_ack_wire_fields_witness:
  "map_option xmsg_submsgs (snd (make_and_resched_acknack ext_s2 50 False st_s2)) =
      Some [SM_ACKNACK
              \<lparr>an_final = True, an_readerId = 0x107, an_writerId = 0x102,
               an_readerSNState = \<lparr>sn_bitmap_base = 1, sn_numbits = 0\<rparr>,
               an_bits = [], an_count = 7\<rparr>]
   \<and> count (rwn (fst (make_and_resched_acknack ext_s2 50 False st_s2))) = 8
   \<and> \<not> ack_requested (rwn (fst (make_and_resched_acknack ext_s2 50 False st_s2)))
   \<and> t_last_ack (rwn (fst (make_and_resched_acknack ext_s2 50 False st_s2))) = 50"
proof -
  have hb: "heartbeat_since_ack (rwn st_s2)" and ar: "ack_requested (rwn st_s2)"
    and ad: "ddsrt_mtime_add_duration (t_last_ack (rwn st_s2)) (ack_delay (gv_config (pwr st_s2)))
               \<le> 50"
    and fp: "fst (first_pass ext_s2 (pwr st_s2) (rwn st_s2))
               = \<lparr>sn_bitmap_base = 1, sn_numbits = 0\<rparr>"
    and ok: "nn_xmsg_new_ok ext_s2"
    by code_simp+
  have nosec: "encode_datareader_submsg ext_s2 = (\<lambda>msg marker pg rg. msg)"
    by (simp add: ext_s2_def ext_empty_def ext_ex_def)
  have v: "meas_hb_to_ack_latency (gv_config (pwr st_s2)) = False"
    "entityid (rd_guid (rwn st_s2)) = 0x107" "entityid (guid (pwr st_s2)) = 0x102"
    "count (rwn st_s2) = 7"
    by (simp_all add: st_s2_def st_ex_def pwr_ex_def rwn_ex_def)
  show ?thesis
    using pure_ack_wire_fields [OF hb ar ad fp ok nosec, of False]
    by (simp add: v)
qed


text \<open>
  What the decision says about fragments, the effect of the commit on the NackFrag
  counter, and the shape of a call that returns a message.
\<close>

lemma fragment_set_in_range_end:
  assumes "fragment_set_in_range fs"
  shows "fn_bitmap_base fs < fn_bitmap_base fs + fn_numbits fs"
    and "fn_bitmap_base fs + fn_numbits fs \<noteq> 0"
proof -
  have lt: "unat (fn_bitmap_base fs) + unat (fn_numbits fs) < 2 ^ LENGTH(32)"
    and pos: "0 < unat (fn_numbits fs)"
    using assms by (simp_all add: fragment_set_in_range_def word_less_nat_alt)
  have u: "unat (fn_bitmap_base fs + fn_numbits fs)
      = unat (fn_bitmap_base fs) + unat (fn_numbits fs)"
    using lt by (simp only: unat_add_lem)
  show "fn_bitmap_base fs < fn_bitmap_base fs + fn_numbits fs"
    using pos by (simp add: word_less_nat_alt u)
  show "fn_bitmap_base fs + fn_numbits fs \<noteq> 0"
    using pos u by (metis add_is_0 less_numeral_extra(3) unat_0)
qed

lemma makebitmaps_loop_false:
  "\<not> fst (makebitmaps_loop ext pw numbits base j info)
     \<Longrightarrow> nackfrag_seq (snd (makebitmaps_loop ext pw numbits base j info)) = 0"
proof (induction "unat numbits - unat j" arbitrary: j info)
  case 0
  then have "\<not> j < numbits" by (simp add: word_less_nat_alt)
  with 0 show ?case by (simp add: makebitmaps_loop_exit)
next
  case (Suc n)
  then have lt: "j < numbits" by (simp add: word_less_nat_alt)
  have n: "n = unat numbits - unat (j + 1)"
    using Suc.hyps(2) loop_index_succ [OF lt] by simp
  show ?case
  proof (cases "nn_bitset_isset numbits (acknack_bits info) j")
    case False
    from Suc.hyps(1) [OF n] Suc.prems show ?thesis
      by (simp add: makebitmaps_loop_skip [OF lt False])
  next
    case True
    show ?thesis
    proof (cases "fst (scan_answer ext pw base j)")
      case DEFRAG_NACKMAP_UNKNOWN_SAMPLE
      have b: "nn_bitset_isset numbits (acknack_bits info) j" by (rule True)
      from Suc.hyps(1) [OF n] Suc.prems show ?thesis
        by (simp add: makebitmaps_loop_unknown [OF lt b DEFRAG_NACKMAP_UNKNOWN_SAMPLE])
    next
      case DEFRAG_NACKMAP_ALL_ADVERTISED_FRAGMENTS_KNOWN
      then show ?thesis
        by (simp add: makebitmaps_loop_all_known [OF lt True])
    next
      case DEFRAG_NACKMAP_FRAGMENTS_MISSING
      with Suc.prems show ?thesis
        by (simp add: makebitmaps_loop_missing [OF lt True])
    qed
  qed
qed

lemma add_AckNack_makebitmaps_false:
  "\<not> fst (add_AckNack_makebitmaps ext pw rm info0)
     \<Longrightarrow> nackfrag_seq (snd (add_AckNack_makebitmaps ext pw rm info0)) = 0"
  using makebitmaps_loop_false
  by (simp add: add_AckNack_makebitmaps_first_pass Let_def split: if_splits)

lemma get_AckNack_info_nackfrag:
  assumes "get_AckNack_info ext pw rm info0 adp ndp = (aanr, ns, info)"
  shows "if aanr = AANR_NACK \<or> aanr = AANR_NACKFRAG_ONLY
         then frag_end_p1 ns =
                (if 0 <s nackfrag_seq info
                 then fn_bitmap_base (nackfrag_set info) + fn_numbits (nackfrag_set info)
                 else 0)
         else nackfrag_seq info = 0"
proof (cases "fst (add_AckNack_makebitmaps ext pw rm info0)")
  case False
  from add_AckNack_makebitmaps_false [OF False] assms show ?thesis
    unfolding get_AckNack_info_no_material [OF False refl]
    by (auto split: if_splits)
next
  case True
  from assms show ?thesis
    unfolding get_AckNack_info_nack_material [OF True refl refl] Let_def
    by (auto simp add: nack_region_def split: if_splits)
qed

lemma acknack_commit_nackfragcount:
  "nackfragcount (pwr (acknack_commit tnow aanr ns st)) =
     (if (aanr = AANR_NACK \<or> aanr = AANR_NACKFRAG_ONLY) \<and> frag_end_p1 ns \<noteq> 0
      then nackfragcount (pwr st) + 1 else nackfragcount (pwr st))"
  by (cases aanr) (simp_all add: acknack_commit_def Let_def)

lemma make_and_resched_acknack_Some:
  assumes "make_and_resched_acknack ext tnow avoid st = (st', Some msg)"
    and "acknack_decision ext tnow st = (aanr, ns, info)"
  obtains msg0 rm1 where
    "aanr \<noteq> AANR_SUPPRESSED_ACK" and "\<not> (avoid \<and> aanr = AANR_SUPPRESSED_NACK)"
    and "nn_xmsg_new ext (rd_guid (rwn st)) (acknack_participant ext (pwr st) (rwn st))
           = Some msg0"
    and "acknack_assemble ext (pwr st) (acknack_clear_flags (rwn st) info) aanr info msg0
           = (msg, rm1)"
    and "nn_xmsg_size msg \<noteq> 0"
    and "st' = acknack_commit tnow aanr ns
                 (st\<lparr>xmsgpool_live := Suc (xmsgpool_live st), rwn := rm1\<rparr>)"
proof -
  have c1: "aanr \<noteq> AANR_SUPPRESSED_ACK"
    using assms by (auto simp add: make_and_resched_acknack_def Let_def)
  have c2: "\<not> (avoid \<and> aanr = AANR_SUPPRESSED_NACK)"
    using assms by (auto simp add: make_and_resched_acknack_def Let_def)
  have g: "rd_guid (acknack_clear_flags (rwn st) info) = rd_guid (rwn st)"
    by (simp add: acknack_clear_flags_def)
  obtain msg0 where new: "nn_xmsg_new ext (rd_guid (rwn st))
      (acknack_participant ext (pwr st) (rwn st)) = Some msg0"
    using assms c1 c2
    by (cases "nn_xmsg_new ext (rd_guid (rwn st)) (acknack_participant ext (pwr st) (rwn st))")
      (auto simp add: make_and_resched_acknack_def Let_def g acknack_participant_clear_flags)
  obtain m rm1 where a: "acknack_assemble ext (pwr st) (acknack_clear_flags (rwn st) info)
      aanr info msg0 = (m, rm1)"
    by (cases "acknack_assemble ext (pwr st) (acknack_clear_flags (rwn st) info)
      aanr info msg0")
  note eq = make_and_resched_acknack_committed [OF assms(2) c1 c2 new a]
  have nz: "nn_xmsg_size m \<noteq> 0"
    using eq assms(1) by (auto split: if_splits)
  then have "m = msg" and "st' = acknack_commit tnow aanr ns
      (st\<lparr>xmsgpool_live := Suc (xmsgpool_live st), rwn := rm1\<rparr>)"
    using eq assms(1) by simp_all
  with that [OF c1 c2 new _ _ _] a nz show thesis by simp
qed

lemma acknack_assemble_nackfrag_counts:
  assumes "encode_datareader_submsg ext = (\<lambda>msg marker pg rg. msg)"
    and "xmsg_submsgs msg0 = []"
  shows "nackfrag_counts (fst (acknack_assemble ext pw rm aanr info msg0)) =
     (if 0 <s nackfrag_seq info then [nackfragcount pw] else [])"
  by (simp add: acknack_assemble_def Let_def add_AckNack_def add_NackFrag_def assms
      nackfrag_counts_def nn_xmsg_setdstPWR_def nn_xmsg_add_timestamp_def)

lemma nn_xmsg_new_empty:
  "nn_xmsg_new ext g pp = Some msg0 \<Longrightarrow> xmsg_submsgs msg0 = []"
  by (auto simp add: nn_xmsg_new_def split: if_splits)

text \<open>
  What the committer does with \<open>pwr->nackfragcount\<close> whenever it returns a message: the
  counter goes up by one (modulo \<open>2^32\<close>) if \<open>info.nackfrag.seq > 0\<close> and the 32-bit sum
  \<open>bitmap_base + numbits\<close> of the fragment set is not 0, and stays otherwise; and, when
  the security layer leaves the message as it is, the message holds one NackFrag if
  \<open>info.nackfrag.seq > 0\<close> and none otherwise, and the count field of that NackFrag is
  the counter's value before the call.
\<close>

lemma make_and_resched_acknack_nackfragcount:
  assumes d: "acknack_decision ext tnow st = (aanr, ns, info)"
    and res: "make_and_resched_acknack ext tnow avoid st = (st', Some msg)"
  shows "nackfragcount (pwr st') =
      (if 0 <s nackfrag_seq info
          \<and> fn_bitmap_base (nackfrag_set info) + fn_numbits (nackfrag_set info) \<noteq> 0
       then nackfragcount (pwr st) + 1 else nackfragcount (pwr st))"
    and "encode_datareader_submsg ext = (\<lambda>msg marker pg rg. msg) \<Longrightarrow>
         nackfrag_counts msg =
           (if 0 <s nackfrag_seq info then [nackfragcount (pwr st)] else [])"
proof -
  from res d obtain msg0 rm1 where
    new: "nn_xmsg_new ext (rd_guid (rwn st)) (acknack_participant ext (pwr st) (rwn st))
           = Some msg0"
    and a: "acknack_assemble ext (pwr st) (acknack_clear_flags (rwn st) info) aanr info msg0
           = (msg, rm1)"
    and st': "st' = acknack_commit tnow aanr ns
                 (st\<lparr>xmsgpool_live := Suc (xmsgpool_live st), rwn := rm1\<rparr>)"
    by (rule make_and_resched_acknack_Some)
  have g: "get_AckNack_info ext (pwr st) (rwn st) uninit_info
      (ddsrt_mtime_add_duration (t_last_ack (rwn st)) (ack_delay (gv_config (pwr st))) \<le> tnow)
      (ddsrt_mtime_add_duration (t_last_nack (rwn st)) (nack_delay (gv_config (pwr st))) \<le> tnow)
      = (aanr, ns, info)"
    using d by (simp add: acknack_decision_def Let_def)
  note nf = get_AckNack_info_nackfrag [OF g]
  show "nackfragcount (pwr st') =
      (if 0 <s nackfrag_seq info
          \<and> fn_bitmap_base (nackfrag_set info) + fn_numbits (nackfrag_set info) \<noteq> 0
       then nackfragcount (pwr st) + 1 else nackfragcount (pwr st))"
  proof (cases "aanr = AANR_NACK \<or> aanr = AANR_NACKFRAG_ONLY")
    case True
    with nf have "frag_end_p1 ns =
                (if 0 <s nackfrag_seq info
                 then fn_bitmap_base (nackfrag_set info) + fn_numbits (nackfrag_set info)
                 else 0)"
      by simp
    then have "(frag_end_p1 ns \<noteq> 0) = (0 <s nackfrag_seq info
          \<and> fn_bitmap_base (nackfrag_set info) + fn_numbits (nackfrag_set info) \<noteq> 0)"
      by simp
    with True show ?thesis
      by (simp add: st' acknack_commit_nackfragcount)
  next
    case False
    with nf have "nackfrag_seq info = 0" by simp
    with False show ?thesis
      by (simp add: st' acknack_commit_nackfragcount)
  qed
  show "nackfrag_counts msg = (if 0 <s nackfrag_seq info then [nackfragcount (pwr st)] else [])"
    if "encode_datareader_submsg ext = (\<lambda>msg marker pg rg. msg)"
    using acknack_assemble_nackfrag_counts [OF that nn_xmsg_new_empty [OF new],
        of "pwr st" "acknack_clear_flags (rwn st) info" aanr info]
    by (simp add: a)
qed




section \<open>Two calls in a row\<close>

text \<open>
  The bitmap builder reads only the configuration, the collaborators' handles and the
  sequence and fragment high-water marks, none of which a commit changes.
\<close>

lemma scan_answer_cong:
  "defrag pw' = defrag pw \<Longrightarrow> last_seq pw' = last_seq pw \<Longrightarrow> last_fragnum pw' = last_fragnum pw
     \<Longrightarrow> scan_answer ext pw' base i = scan_answer ext pw base i"
  by (simp add: scan_answer_def)

lemma makebitmaps_loop_cong:
  assumes "defrag pw' = defrag pw" and "last_seq pw' = last_seq pw"
    and "last_fragnum pw' = last_fragnum pw"
  shows "makebitmaps_loop ext pw' numbits base j info = makebitmaps_loop ext pw numbits base j info"
proof (induction "unat numbits - unat j" arbitrary: j info)
  case 0
  then have "\<not> j < numbits" by (simp add: word_less_nat_alt)
  then show ?case by (simp add: makebitmaps_loop_exit)
next
  case (Suc n)
  then have lt: "j < numbits" by (simp add: word_less_nat_alt)
  have n: "n = unat numbits - unat (j + 1)"
    using Suc.hyps(2) loop_index_succ [OF lt] by simp
  note sa = scan_answer_cong [OF assms, of ext base j]
  show ?case
  proof (cases "nn_bitset_isset numbits (acknack_bits info) j")
    case False
    from Suc.hyps(1) [OF n] show ?thesis
      by (simp add: makebitmaps_loop_skip [OF lt False])
  next
    case True
    show ?thesis
    proof (cases "fst (scan_answer ext pw base j)")
      case DEFRAG_NACKMAP_UNKNOWN_SAMPLE
      have b: "nn_bitset_isset numbits (acknack_bits info) j" by (rule True)
      have v': "fst (scan_answer ext pw' base j) = DEFRAG_NACKMAP_UNKNOWN_SAMPLE"
        using DEFRAG_NACKMAP_UNKNOWN_SAMPLE sa by simp
      from Suc.hyps(1) [OF n] show ?thesis
        by (simp add: makebitmaps_loop_unknown [OF lt b DEFRAG_NACKMAP_UNKNOWN_SAMPLE]
            makebitmaps_loop_unknown [OF lt b v'] sa)
    next
      case DEFRAG_NACKMAP_ALL_ADVERTISED_FRAGMENTS_KNOWN
      have v': "fst (scan_answer ext pw' base j) = DEFRAG_NACKMAP_ALL_ADVERTISED_FRAGMENTS_KNOWN"
        using DEFRAG_NACKMAP_ALL_ADVERTISED_FRAGMENTS_KNOWN sa by simp
      show ?thesis
        by (simp add: makebitmaps_loop_all_known [OF lt True v']
            makebitmaps_loop_all_known [OF lt True DEFRAG_NACKMAP_ALL_ADVERTISED_FRAGMENTS_KNOWN] sa)
    next
      case DEFRAG_NACKMAP_FRAGMENTS_MISSING
      have v': "fst (scan_answer ext pw' base j) = DEFRAG_NACKMAP_FRAGMENTS_MISSING"
        using DEFRAG_NACKMAP_FRAGMENTS_MISSING sa by simp
      show ?thesis
        by (simp add: makebitmaps_loop_missing [OF lt True v']
            makebitmaps_loop_missing [OF lt True DEFRAG_NACKMAP_FRAGMENTS_MISSING] sa)
    qed
  qed
qed

lemma add_AckNack_makebitmaps_cong:
  assumes "gv_config pw' = gv_config pw" and "reorder pw' = reorder pw"
    and "next_deliv_seq_lowword pw' = next_deliv_seq_lowword pw" and "dqueue pw' = dqueue pw"
    and "defrag pw' = defrag pw" and "last_seq pw' = last_seq pw"
    and "last_fragnum pw' = last_fragnum pw"
    and "in_sync rm' = in_sync rm" and "filtered rm' = filtered rm"
    and "rwn_last_seq rm' = rwn_last_seq rm"
    and "not_in_sync_reorder rm' = not_in_sync_reorder rm"
  shows "add_AckNack_makebitmaps ext pw' rm' info = add_AckNack_makebitmaps ext pw rm info"
proof -
  have "add_AckNack_getsource ext pw' rm' = add_AckNack_getsource ext pw rm"
    using assms by (simp add: add_AckNack_getsource_def next_deliv_seq_def Let_def)
  then have "first_pass ext pw' rm' = first_pass ext pw rm"
    using assms by (simp add: first_pass_def)
  then show ?thesis
    by (simp add: add_AckNack_makebitmaps_first_pass Let_def
        makebitmaps_loop_cong [OF assms(5,6,7)])
qed

lemma acknack_commit_pwr:
  "gv_config (pwr (acknack_commit tnow aanr ns st)) = gv_config (pwr st)"
  "reorder (pwr (acknack_commit tnow aanr ns st)) = reorder (pwr st)"
  "next_deliv_seq_lowword (pwr (acknack_commit tnow aanr ns st)) = next_deliv_seq_lowword (pwr st)"
  "dqueue (pwr (acknack_commit tnow aanr ns st)) = dqueue (pwr st)"
  "defrag (pwr (acknack_commit tnow aanr ns st)) = defrag (pwr st)"
  "last_seq (pwr (acknack_commit tnow aanr ns st)) = last_seq (pwr st)"
  "last_fragnum (pwr (acknack_commit tnow aanr ns st)) = last_fragnum (pwr st)"
  by (cases aanr; simp add: acknack_commit_def Let_def)+

lemma acknack_commit_rwn:
  "in_sync (rwn (acknack_commit tnow aanr ns st)) = in_sync (rwn st)"
  "filtered (rwn (acknack_commit tnow aanr ns st)) = filtered (rwn st)"
  "rwn_last_seq (rwn (acknack_commit tnow aanr ns st)) = rwn_last_seq (rwn st)"
  "not_in_sync_reorder (rwn (acknack_commit tnow aanr ns st)) = not_in_sync_reorder (rwn st)"
  "heartbeat_since_ack (rwn (acknack_commit tnow aanr ns st)) = heartbeat_since_ack (rwn st)"
  "directed_heartbeat (rwn (acknack_commit tnow aanr ns st)) = directed_heartbeat (rwn st)"
  by (cases aanr; simp add: acknack_commit_def Let_def)+

lemma acknack_commit_nack:
  assumes "aanr = AANR_NACK \<or> aanr = AANR_NACKFRAG_ONLY"
  shows "last_nack (rwn (acknack_commit tnow aanr ns st)) = ns"
    and "t_last_nack (rwn (acknack_commit tnow aanr ns st)) = tnow"
  using assms by (auto simp add: acknack_commit_def Let_def)

lemma acknack_commit_suppressed_nack:
  "seq_end_p1 (last_nack (rwn (acknack_commit tnow AANR_SUPPRESSED_NACK ns st)))
     = seq_end_p1 (last_nack (rwn st))"
  "frag_end_p1 (last_nack (rwn (acknack_commit tnow AANR_SUPPRESSED_NACK ns st)))
     = frag_end_p1 (last_nack (rwn st))"
  "t_last_nack (rwn (acknack_commit tnow AANR_SUPPRESSED_NACK ns st)) = t_last_nack (rwn st)"
  by (simp_all add: acknack_commit_def Let_def)

lemma seq_end_not_before_base:
  fixes b :: seqno_t and n :: "32 word"
  assumes "sint b + uint n < 2 ^ 63"
  shows "\<not> b + ucast n <s b" and "b = b + ucast n \<Longrightarrow> n = 0"
proof -
  have n32: "uint n < 2 ^ 32" using uint_bounded [of n] by simp
  then have "uint n < 2 ^ 64" by simp
  then have "take_bit 64 (uint n) = uint n"
    by (intro take_bit_int_eq_self) simp_all
  then have un: "uint (ucast n :: 64 word) = uint n"
    by (simp add: unsigned_ucast_eq)
  have "uint (ucast n :: 64 word) < 2 ^ 63" unfolding un using n32 by simp
  then have sn: "sint (ucast n :: 64 word) = uint n"
    using uint_small_sint [of "ucast n :: 64 word"] un by simp
  have "0 \<le> uint n" by simp
  moreover have "- (2 ^ 63) \<le> sint b" using sint_ge [of b] by simp
  ultimately have lo: "- (2 ^ 63) \<le> sint b + uint n" by linarith
  have "sint (b + ucast n) = signed_take_bit 63 (sint b + sint (ucast n :: 64 word))"
    by (simp add: sint_word_ariths)
  also have "\<dots> = sint b + uint n"
    unfolding sn using lo assms by (rule signed_take_bit_int_eq_self)
  finally have s: "sint (b + ucast n) = sint b + uint n" .
  show "\<not> b + ucast n <s b"
    by (simp add: word_sless_alt s)
  show "n = 0" if "b = b + ucast n"
  proof -
    from that have "sint b = sint (b + ucast n)" by simp
    then have "uint n = 0" using s by simp
    then show ?thesis by (simp add: uint_0_iff)
  qed
qed


lemma get_AckNack_info_nack_material_flat:
  assumes "fst (add_AckNack_makebitmaps ext pw rm info0)"
    and "info = snd (add_AckNack_makebitmaps ext pw rm info0)"
    and "ns = nack_region info"
    and "adv = (seq_end_p1 (last_nack rm) <s seq_base ns
           \<or> (seq_base ns = seq_end_p1 (last_nack rm)
               \<and> frag_end_p1 (last_nack rm) \<le> frag_base ns))"
    and "dir = (directed_heartbeat rm \<and> (\<not> nack_sent_on_nackdelay rm \<or> ndp))"
  shows "get_AckNack_info ext pw rm info0 adp ndp =
    (if adv \<or> dir \<or> ndp
     then (if sn_numbits (acknack_set info) = 0 \<and> 0 <s nackfrag_seq info
              \<and> \<not> ack_requested rm
           then AANR_NACKFRAG_ONLY else AANR_NACK,
           ns, info\<lparr>info_nack_sent_on_nackdelay := \<not> adv \<and> \<not> dir\<rparr>)
     else (if heartbeat_since_ack rm \<and> ack_requested rm
              \<and> (seq_base (last_nack rm) <s seq_base ns \<or> adp)
           then AANR_SUPPRESSED_NACK else AANR_SUPPRESSED_ACK,
           ns, info\<lparr>info_nack_sent_on_nackdelay := nack_sent_on_nackdelay rm,
                    acknack_set := (acknack_set info)\<lparr>sn_numbits := 0\<rparr>,
                    nackfrag_seq := 0\<rparr>))"
proof -
  note m = get_AckNack_info_nack_material [OF assms(1,2,3), of adp ndp]
  consider (a) adv | (b) "\<not> adv" dir | (c) "\<not> adv" "\<not> dir" ndp
    | (d) "\<not> adv" "\<not> dir" "\<not> ndp"
    by blast
  then show ?thesis
  proof cases
    case a
    then show ?thesis
      unfolding m Let_def assms(4) [symmetric] by simp
  next
    case b
    then show ?thesis
      unfolding m Let_def assms(4) [symmetric] assms(5) [symmetric] by simp
  next
    case c
    then show ?thesis
      unfolding m Let_def assms(4) [symmetric] assms(5) [symmetric] by simp
  next
    case d
    then show ?thesis
      unfolding m Let_def assms(4) [symmetric] assms(5) [symmetric] by simp
  qed
qed

lemma get_AckNack_info_result_cases:
  assumes "get_AckNack_info ext pw rm info0 adp ndp = (aanr, ns, info)"
  shows "aanr = AANR_ACK \<Longrightarrow> \<not> fst (add_AckNack_makebitmaps ext pw rm info0)"
    and "aanr = AANR_NACK \<or> aanr = AANR_NACKFRAG_ONLY \<Longrightarrow>
           fst (add_AckNack_makebitmaps ext pw rm info0)
           \<and> ns = nack_region (snd (add_AckNack_makebitmaps ext pw rm info0))"
    and "aanr = AANR_SUPPRESSED_NACK \<Longrightarrow>
           fst (add_AckNack_makebitmaps ext pw rm info0)
           \<and> ns = nack_region (snd (add_AckNack_makebitmaps ext pw rm info0))
           \<and> \<not> (seq_end_p1 (last_nack rm) <s seq_base ns
                  \<or> (seq_base ns = seq_end_p1 (last_nack rm)
                      \<and> frag_end_p1 (last_nack rm) \<le> frag_base ns))
           \<and> \<not> ndp"
proof -
  show "\<not> fst (add_AckNack_makebitmaps ext pw rm info0)" if "aanr = AANR_ACK"
  proof
    assume t: "fst (add_AckNack_makebitmaps ext pw rm info0)"
    from assms that show False
      unfolding get_AckNack_info_nack_material_flat [OF t refl refl refl refl]
      by (auto split: if_splits)
  qed
  show "fst (add_AckNack_makebitmaps ext pw rm info0)
           \<and> ns = nack_region (snd (add_AckNack_makebitmaps ext pw rm info0))"
    if "aanr = AANR_NACK \<or> aanr = AANR_NACKFRAG_ONLY"
  proof (cases "fst (add_AckNack_makebitmaps ext pw rm info0)")
    case False
    from assms that show ?thesis
      unfolding get_AckNack_info_no_material [OF False refl]
      by (auto split: if_splits)
  next
    case True
    from assms that True show ?thesis
      unfolding get_AckNack_info_nack_material_flat [OF True refl refl refl refl]
      by (auto split: if_splits)
  qed
  show "fst (add_AckNack_makebitmaps ext pw rm info0)
           \<and> ns = nack_region (snd (add_AckNack_makebitmaps ext pw rm info0))
           \<and> \<not> (seq_end_p1 (last_nack rm) <s seq_base ns
                  \<or> (seq_base ns = seq_end_p1 (last_nack rm)
                      \<and> frag_end_p1 (last_nack rm) \<le> frag_base ns))
           \<and> \<not> ndp"
    if "aanr = AANR_SUPPRESSED_NACK"
  proof (cases "fst (add_AckNack_makebitmaps ext pw rm info0)")
    case False
    from assms that show ?thesis
      unfolding get_AckNack_info_no_material [OF False refl]
      by (auto split: if_splits)
  next
    case True
    from assms that True show ?thesis
      unfolding get_AckNack_info_nack_material_flat [OF True refl refl refl refl]
      by (auto split: if_splits)
  qed
qed

lemma get_AckNack_info_nothing_owed:
  assumes "\<not> heartbeat_since_ack rm" and "\<not> directed_heartbeat rm"
    and "fst (add_AckNack_makebitmaps ext pw rm info0) \<Longrightarrow> \<not> ndp"
    and "fst (add_AckNack_makebitmaps ext pw rm info0) \<Longrightarrow>
           ns = nack_region (snd (add_AckNack_makebitmaps ext pw rm info0)) \<Longrightarrow>
           \<not> (seq_end_p1 (last_nack rm) <s seq_base ns
              \<or> (seq_base ns = seq_end_p1 (last_nack rm)
                  \<and> frag_end_p1 (last_nack rm) \<le> frag_base ns))"
    and "ns = nack_region (snd (add_AckNack_makebitmaps ext pw rm info0))"
  shows "fst (get_AckNack_info ext pw rm info0 adp ndp) = AANR_SUPPRESSED_ACK"
proof (cases "fst (add_AckNack_makebitmaps ext pw rm info0)")
  case False
  show ?thesis
    unfolding get_AckNack_info_no_material [OF False refl]
    using assms(1) by simp
next
  case True
  note na = assms(4) [OF True assms(5)]
  show ?thesis
    unfolding get_AckNack_info_nack_material_flat [OF True refl assms(5) refl refl]
    using assms(1,2) assms(3) [OF True] na by simp
qed


lemma make_and_resched_acknack_suppressed_ack:
  "fst (acknack_decision ext tnow st) = AANR_SUPPRESSED_ACK
     \<Longrightarrow> make_and_resched_acknack ext tnow avoid st = (st, None)"
  by (simp add: make_and_resched_acknack_def Let_def)

text \<open>
  A second call with nothing changed and the same time does not always yield
  SUPPRESSED\_ACK, in two ways.  When the first call is an avoided
  SUPPRESSED\_NACK it returns no message and changes only the event, so the second call
  decides SUPPRESSED\_NACK again.  And with a NACK delay of 0 the delay has passed as
  soon as a NACK is sent: the first call sends a NACK, and the second decides NACK and
  returns a message again.
\<close>

theorem second_call_not_always_suppressed_ack:
  "snd (make_and_resched_acknack ext_frag 50 True st_avoid) = None
   \<and> fst (acknack_decision ext_frag 50
            (fst (make_and_resched_acknack ext_frag 50 True st_avoid))) = AANR_SUPPRESSED_NACK
   \<and> snd (make_and_resched_acknack ext_ex 50 False st_nodelay) \<noteq> None
   \<and> fst (acknack_decision ext_ex 50
            (fst (make_and_resched_acknack ext_ex 50 False st_nodelay))) = AANR_NACK
   \<and> snd (make_and_resched_acknack ext_ex 50 False
            (fst (make_and_resched_acknack ext_ex 50 False st_nodelay))) \<noteq> None"
  by code_simp

text \<open>
  C6, amended.  If a call of the committer returned a message, or decided
  SUPPRESSED\_ACK, then a second call with the same collaborators' answers and the same
  time decides SUPPRESSED\_ACK and returns no message, leaving the state as it is,
  provided the configured NACK delay is positive and the NACK material is in range.
\<close>

theorem second_call_suppressed:
  assumes first: "make_and_resched_acknack ext tnow avoid st = (st', r)"
    and sent: "r \<noteq> None \<or> fst (acknack_decision ext tnow st) = AANR_SUPPRESSED_ACK"
    and nd: "0 < nack_delay (gv_config (pwr st))"
    and wf: "fst (add_AckNack_makebitmaps ext (pwr st) (rwn st) uninit_info) \<longrightarrow>
               nack_material_in_range
                 (snd (add_AckNack_makebitmaps ext (pwr st) (rwn st) uninit_info))"
  shows "fst (acknack_decision ext tnow st') = AANR_SUPPRESSED_ACK
    \<and> make_and_resched_acknack ext tnow avoid' st' = (st', None)"
proof -
  have dec: "fst (acknack_decision ext tnow st') = AANR_SUPPRESSED_ACK"
  proof (cases "fst (acknack_decision ext tnow st) = AANR_SUPPRESSED_ACK")
    case True
    with first make_and_resched_acknack_suppressed_ack [OF True, of avoid]
    show ?thesis by simp
  next
    case False
    with sent obtain msg where r: "r = Some msg" by auto
    obtain aanr ns info where d: "acknack_decision ext tnow st = (aanr, ns, info)"
      by (cases "acknack_decision ext tnow st")
    from first [unfolded r] d obtain msg0 rm1 where
      c2: "\<not> (avoid \<and> aanr = AANR_SUPPRESSED_NACK)"
      and a: "acknack_assemble ext (pwr st) (acknack_clear_flags (rwn st) info) aanr info msg0
           = (msg, rm1)"
      and st': "st' = acknack_commit tnow aanr ns
                 (st\<lparr>xmsgpool_live := Suc (xmsgpool_live st), rwn := rm1\<rparr>)"
      by (rule make_and_resched_acknack_Some)
    let ?st0 = "st\<lparr>xmsgpool_live := Suc (xmsgpool_live st), rwn := rm1\<rparr>"
    let ?mb = "add_AckNack_makebitmaps ext (pwr st) (rwn st) uninit_info"
    let ?mb' = "add_AckNack_makebitmaps ext (pwr st') (rwn st') uninit_info"
    have "rm1 = snd (acknack_assemble ext (pwr st) (acknack_clear_flags (rwn st) info)
        aanr info msg0)"
      by (simp add: a)
    then have rm1: "in_sync rm1 = in_sync (rwn st)" "filtered rm1 = filtered (rwn st)"
      "rwn_last_seq rm1 = rwn_last_seq (rwn st)"
      "not_in_sync_reorder rm1 = not_in_sync_reorder (rwn st)"
      "\<not> heartbeat_since_ack rm1" "\<not> directed_heartbeat rm1"
      "last_nack rm1 = last_nack (rwn st)" "t_last_nack rm1 = t_last_nack (rwn st)"
      unfolding acknack_assemble_rwn by (simp_all add: acknack_clear_flags_def)
    have mb: "?mb' = ?mb"
      unfolding st'
      by (rule add_AckNack_makebitmaps_cong) (simp_all add: acknack_commit_pwr acknack_commit_rwn rm1)
    have cfg: "gv_config (pwr st') = gv_config (pwr st)"
      by (simp add: st' acknack_commit_pwr)
    have hsa: "\<not> heartbeat_since_ack (rwn st')" and dh: "\<not> directed_heartbeat (rwn st')"
      by (simp_all add: st' acknack_commit_rwn rm1)
    have g: "get_AckNack_info ext (pwr st) (rwn st) uninit_info
        (ddsrt_mtime_add_duration (t_last_ack (rwn st)) (ack_delay (gv_config (pwr st))) \<le> tnow)
        (ddsrt_mtime_add_duration (t_last_nack (rwn st)) (nack_delay (gv_config (pwr st))) \<le> tnow)
        = (aanr, ns, info)"
      using d by (simp add: acknack_decision_def Let_def)
    note rc = get_AckNack_info_result_cases [OF g]
    have aanr: "aanr \<noteq> AANR_SUPPRESSED_ACK"
      using False d by simp
    let ?ns = "nack_region (snd ?mb)"
    have ndp: "\<not> ddsrt_mtime_add_duration (t_last_nack (rwn st')) (nack_delay (gv_config (pwr st')))
        \<le> tnow" if t: "fst ?mb"
    proof (cases "aanr = AANR_SUPPRESSED_NACK")
      case True
      from rc(3) [OF True] have "\<not> ddsrt_mtime_add_duration (t_last_nack (rwn st))
          (nack_delay (gv_config (pwr st))) \<le> tnow"
        by blast
      then show ?thesis
        unfolding cfg by (simp add: st' True acknack_commit_suppressed_nack rm1)
    next
      case False
      with aanr rc(1) t have n: "aanr = AANR_NACK \<or> aanr = AANR_NACKFRAG_ONLY"
        by (cases aanr) simp_all
      show ?thesis
        unfolding cfg
        using nd by (simp add: st' acknack_commit_nack [OF n] ddsrt_mtime_add_duration_def)
    qed
    have adv: "\<not> (seq_end_p1 (last_nack (rwn st')) <s seq_base ?ns
              \<or> (seq_base ?ns = seq_end_p1 (last_nack (rwn st'))
                  \<and> frag_end_p1 (last_nack (rwn st')) \<le> frag_base ?ns))" if t: "fst ?mb"
    proof (cases "aanr = AANR_SUPPRESSED_NACK")
      case True
      from rc(3) [OF True] have "\<not> (seq_end_p1 (last_nack (rwn st)) <s seq_base ?ns
              \<or> (seq_base ?ns = seq_end_p1 (last_nack (rwn st))
                  \<and> frag_end_p1 (last_nack (rwn st)) \<le> frag_base ?ns))"
        by blast
      then show ?thesis
        by (simp add: st' True acknack_commit_suppressed_nack rm1)
    next
      case False
      with aanr rc(1) t have n: "aanr = AANR_NACK \<or> aanr = AANR_NACKFRAG_ONLY"
        by (cases aanr) simp_all
      with rc(2) have ns: "ns = ?ns" by simp
      have ln: "last_nack (rwn st') = ?ns"
        by (simp add: st' acknack_commit_nack [OF n] ns)
      from wf t have r: "nack_material_in_range (snd ?mb)" by simp
      then have ov: "sint (sn_bitmap_base (acknack_set (snd ?mb)))
          + uint (sn_numbits (acknack_set (snd ?mb))) < 2 ^ 63"
        by (simp add: nack_material_in_range_def)
      note e = seq_end_not_before_base [OF ov]
      have frag: "\<not> frag_end_p1 ?ns \<le> frag_base ?ns"
        if z: "sn_numbits (acknack_set (snd ?mb)) = 0"
      proof -
        from r z have pos: "0 <s nackfrag_seq (snd ?mb)"
          by (simp add: nack_material_in_range_def get_AckNack_info_assert_def)
        with r have "fragment_set_in_range (nackfrag_set (snd ?mb))"
          by (simp add: nack_material_in_range_def)
        from fragment_set_in_range_end(1) [OF this] pos show ?thesis
          by (simp add: nack_region_def)
      qed
      have "\<not> seq_end_p1 ?ns <s seq_base ?ns"
        using e(1) by (simp add: nack_region_def)
      moreover have "\<not> frag_end_p1 ?ns \<le> frag_base ?ns" if "seq_base ?ns = seq_end_p1 ?ns"
      proof -
        from that have "sn_bitmap_base (acknack_set (snd ?mb))
            = sn_bitmap_base (acknack_set (snd ?mb)) + ucast (sn_numbits (acknack_set (snd ?mb)))"
          by (simp add: nack_region_def)
        from e(2) [OF this] frag show ?thesis by simp
      qed
      ultimately show ?thesis
        unfolding ln by blast
    qed
    show ?thesis
      unfolding acknack_decision_def Let_def
    proof (rule get_AckNack_info_nothing_owed [OF hsa dh _ _ refl])
      assume "fst ?mb'"
      then show "\<not> ddsrt_mtime_add_duration (t_last_nack (rwn st'))
          (nack_delay (gv_config (pwr st'))) \<le> tnow"
        using ndp by (simp add: mb)
    next
      assume "fst ?mb'"
      then show "\<not> (seq_end_p1 (last_nack (rwn st')) <s seq_base (nack_region (snd ?mb'))
              \<or> (seq_base (nack_region (snd ?mb')) = seq_end_p1 (last_nack (rwn st'))
                  \<and> frag_end_p1 (last_nack (rwn st')) \<le> frag_base (nack_region (snd ?mb'))))"
        using adv by (simp add: mb)
    qed
  qed
  with make_and_resched_acknack_suppressed_ack [OF dec, of avoid'] show ?thesis
    by simp
qed


text \<open>
  On the example state the first call sends a NACK (of whole samples, or of the
  fragments of sample 10) and the second is suppressed.
\<close>

theorem second_call_suppressed_witness:
  "fst (acknack_decision ext_ex 50 (fst (make_and_resched_acknack ext_ex 50 False st_ex)))
     = AANR_SUPPRESSED_ACK
   \<and> snd (make_and_resched_acknack ext_ex 50 False
            (fst (make_and_resched_acknack ext_ex 50 False st_ex))) = None
   \<and> fst (acknack_decision ext_frag 50 (fst (make_and_resched_acknack ext_frag 50 False st_ex)))
     = AANR_SUPPRESSED_ACK"
proof -
  obtain st1 r1 where f1: "make_and_resched_acknack ext_ex 50 False st_ex = (st1, r1)"
    by (cases "make_and_resched_acknack ext_ex 50 False st_ex")
  obtain st2 r2 where f2: "make_and_resched_acknack ext_frag 50 False st_ex = (st2, r2)"
    by (cases "make_and_resched_acknack ext_frag 50 False st_ex")
  have "snd (make_and_resched_acknack ext_ex 50 False st_ex) \<noteq> None"
    "snd (make_and_resched_acknack ext_frag 50 False st_ex) \<noteq> None"
    by code_simp+
  then have s1: "r1 \<noteq> None \<or> fst (acknack_decision ext_ex 50 st_ex) = AANR_SUPPRESSED_ACK"
    and s2: "r2 \<noteq> None \<or> fst (acknack_decision ext_frag 50 st_ex) = AANR_SUPPRESSED_ACK"
    by (simp_all add: f1 f2)
  have nd: "0 < nack_delay (gv_config (pwr st_ex))"
    by (simp add: st_ex_def pwr_ex_def)
  have mb1: "add_AckNack_makebitmaps ext_ex (pwr st_ex) (rwn st_ex) uninit_info =
     (True, uninit_info\<lparr>acknack_set := \<lparr>sn_bitmap_base = 10, sn_numbits = 3\<rparr>,
                        acknack_bits := [0xA0000000, 0, 0, 0, 0, 0, 0, 0]\<rparr>)"
    and mb2: "add_AckNack_makebitmaps ext_frag (pwr st_ex) (rwn st_ex) uninit_info =
     (True, uninit_info\<lparr>acknack_set := \<lparr>sn_bitmap_base = 10, sn_numbits = 0\<rparr>,
                        acknack_bits := [0xE0000000, 0, 0, 0, 0, 0, 0, 0],
                        nackfrag_seq := 10,
                        nackfrag_set := \<lparr>fn_bitmap_base = 1, fn_numbits = 4\<rparr>,
                        nackfrag_bits := [0x90000000, 0, 0, 0, 0, 0, 0, 0]\<rparr>)"
    by code_simp+
  have wf1: "fst (add_AckNack_makebitmaps ext_ex (pwr st_ex) (rwn st_ex) uninit_info) \<longrightarrow>
      nack_material_in_range (snd (add_AckNack_makebitmaps ext_ex (pwr st_ex) (rwn st_ex) uninit_info))"
    unfolding mb1
    by (simp add: nack_material_in_range_def get_AckNack_info_assert_def uninit_info_def
        word_sle_eq word_sless_alt)
  have wf2: "fst (add_AckNack_makebitmaps ext_frag (pwr st_ex) (rwn st_ex) uninit_info) \<longrightarrow>
      nack_material_in_range (snd (add_AckNack_makebitmaps ext_frag (pwr st_ex) (rwn st_ex) uninit_info))"
    unfolding mb2
    by (simp add: nack_material_in_range_def get_AckNack_info_assert_def uninit_info_def
        fragment_set_in_range_def word_sle_eq word_sless_alt)
  from second_call_suppressed [OF f1 s1 nd wf1, of False]
    second_call_suppressed [OF f2 s2 nd wf2, of False]
  show ?thesis
    by (simp add: f1 f2)
qed


end
